theory Spec2Isabelle
  imports Complex_Main "HOL-Library.Sublist" "HOL-Library.Multiset"
begin

section \<open>JavaScript numbers\<close>

text \<open>
  A JavaScript Number is modelled as an exact real extended with the three special
  values the engines can meet: \<open>Infinity\<close>, \<open>-Infinity\<close> and \<open>NaN\<close>. The
  special values follow IEEE 754 as JavaScript exposes it (\<open>NaN\<close> is absorbing and
  compares false with everything, \<open>0 * Infinity\<close> and \<open>Infinity - Infinity\<close> are
  \<open>NaN\<close>, \<open>x / 0\<close> is infinite for \<open>x \<noteq> 0\<close>). Finite arithmetic is exact:
  rounding to 53 bits, overflow of finite operands to infinity, underflow and the sign of
  zero (\<open>-0\<close> is identified with \<open>0\<close>) are not modelled.
\<close>

datatype jsnumber = Fin real | PosInf | NegInf | NaN

fun jadd :: "jsnumber \<Rightarrow> jsnumber \<Rightarrow> jsnumber" where
  "jadd (Fin a) (Fin b) = Fin (a + b)"
| "jadd NaN _ = NaN"
| "jadd _ NaN = NaN"
| "jadd PosInf NegInf = NaN"
| "jadd NegInf PosInf = NaN"
| "jadd PosInf _ = PosInf"
| "jadd _ PosInf = PosInf"
| "jadd NegInf _ = NegInf"
| "jadd _ NegInf = NegInf"

fun jneg :: "jsnumber \<Rightarrow> jsnumber" where
  "jneg (Fin a) = Fin (- a)"
| "jneg PosInf = NegInf"
| "jneg NegInf = PosInf"
| "jneg NaN = NaN"

definition jsub :: "jsnumber \<Rightarrow> jsnumber \<Rightarrow> jsnumber" where
  "jsub a b = jadd a (jneg b)"

fun jmul :: "jsnumber \<Rightarrow> jsnumber \<Rightarrow> jsnumber" where
  "jmul (Fin a) (Fin b) = Fin (a * b)"
| "jmul NaN _ = NaN"
| "jmul _ NaN = NaN"
| "jmul (Fin a) PosInf = (if a = 0 then NaN else if 0 < a then PosInf else NegInf)"
| "jmul (Fin a) NegInf = (if a = 0 then NaN else if 0 < a then NegInf else PosInf)"
| "jmul PosInf (Fin b) = (if b = 0 then NaN else if 0 < b then PosInf else NegInf)"
| "jmul NegInf (Fin b) = (if b = 0 then NaN else if 0 < b then NegInf else PosInf)"
| "jmul PosInf PosInf = PosInf"
| "jmul PosInf NegInf = NegInf"
| "jmul NegInf PosInf = NegInf"
| "jmul NegInf NegInf = PosInf"

fun jdiv :: "jsnumber \<Rightarrow> jsnumber \<Rightarrow> jsnumber" where
  "jdiv (Fin a) (Fin b) =
     (if b = 0 then (if a = 0 then NaN else if 0 < a then PosInf else NegInf)
      else Fin (a / b))"
| "jdiv NaN _ = NaN"
| "jdiv _ NaN = NaN"
| "jdiv (Fin a) PosInf = Fin 0"
| "jdiv (Fin a) NegInf = Fin 0"
| "jdiv PosInf (Fin b) = (if b < 0 then NegInf else PosInf)"
| "jdiv NegInf (Fin b) = (if b < 0 then PosInf else NegInf)"
| "jdiv PosInf PosInf = NaN"
| "jdiv PosInf NegInf = NaN"
| "jdiv NegInf PosInf = NaN"
| "jdiv NegInf NegInf = NaN"

fun jabs :: "jsnumber \<Rightarrow> jsnumber" where
  "jabs (Fin a) = Fin \<bar>a\<bar>"
| "jabs PosInf = PosInf"
| "jabs NegInf = PosInf"
| "jabs NaN = NaN"

text \<open>\<open>a < b\<close>; false as soon as one side is \<open>NaN\<close>.\<close>

fun jlt :: "jsnumber \<Rightarrow> jsnumber \<Rightarrow> bool" where
  "jlt (Fin a) (Fin b) = (a < b)"
| "jlt NaN _ = False"
| "jlt _ NaN = False"
| "jlt NegInf NegInf = False"
| "jlt NegInf _ = True"
| "jlt _ NegInf = False"
| "jlt PosInf _ = False"
| "jlt _ PosInf = True"

definition jgt :: "jsnumber \<Rightarrow> jsnumber \<Rightarrow> bool" where
  "jgt a b = jlt b a"

text \<open>\<open>a <= b\<close> is \<open>!(b < a)\<close> unless one side is \<open>NaN\<close>.\<close>

definition jle :: "jsnumber \<Rightarrow> jsnumber \<Rightarrow> bool" where
  "jle a b = (a \<noteq> NaN \<and> b \<noteq> NaN \<and> \<not> jlt b a)"

text \<open>Strict equality \<open>a === b\<close> on numbers: \<open>NaN\<close> differs from itself.\<close>

definition jeq :: "jsnumber \<Rightarrow> jsnumber \<Rightarrow> bool" where
  "jeq a b = (a \<noteq> NaN \<and> a = b)"

text \<open>The global \<open>isNaN\<close> on a number.\<close>

definition isNaN :: "jsnumber \<Rightarrow> bool" where
  "isNaN a = (a = NaN)"

text \<open>Truthiness of a number: \<open>0\<close> and \<open>NaN\<close> are falsy.\<close>

definition truthy :: "jsnumber \<Rightarrow> bool" where
  "truthy a = (a \<noteq> NaN \<and> a \<noteq> Fin 0)"

definition isFinite :: "jsnumber \<Rightarrow> bool" where
  "isFinite a = (case a of Fin _ \<Rightarrow> True | _ \<Rightarrow> False)"

text \<open>\<open>Number.isInteger\<close>.\<close>

definition isInteger :: "jsnumber \<Rightarrow> bool" where
  "isInteger a = (case a of Fin x \<Rightarrow> real_of_int \<lfloor>x\<rfloor> = x | _ \<Rightarrow> False)"

section \<open>Host functions\<close>

text \<open>
  \<open>parseFloat\<close>, \<open>Number.prototype.toLocaleString\<close> and the conversions between
  strings and numbers (\<open>toNumber\<close>, \<open>numberToString\<close>) belong to the JavaScript host, not to the repository; the model takes
  them as parameters. \<open>toLocaleString2\<close> is
  \<open>toLocaleString(undefined, { maximumFractionDigits: 2 })\<close>.
\<close>

record host =
  parseFloat :: "string \<Rightarrow> jsnumber"
  toLocaleString :: "jsnumber \<Rightarrow> string"
  toLocaleString2 :: "jsnumber \<Rightarrow> string"
  toNumber :: "string \<Rightarrow> jsnumber"
  numberToString :: "jsnumber \<Rightarrow> string"

text \<open>
  \<open>Array.prototype.sort(cmp)\<close>: ECMAScript asks for a stable sort, and for a consistent
  comparator the outcome is the one stable sorted arrangement; it is modelled as a stable
  insertion sort. An element moves right past \<open>y\<close> only when \<open>cmp x y > 0\<close>; a
  comparator result \<open>NaN\<close> counts as \<open>0\<close>. For an inconsistent comparator (a
  \<open>NaN\<close> sort key among numbers) the order is left to the engine, and this model
  then fixes one rearrangement among the possible ones: only its being a rearrangement
  is meaningful there.
\<close>

fun insert_cmp :: "('a \<Rightarrow> 'a \<Rightarrow> jsnumber) \<Rightarrow> 'a \<Rightarrow> 'a list \<Rightarrow> 'a list" where
  "insert_cmp cmp x [] = [x]"
| "insert_cmp cmp x (y # ys) =
     (if jgt (cmp x y) (Fin 0) then y # insert_cmp cmp x ys else x # y # ys)"

definition array_sort :: "('a \<Rightarrow> 'a \<Rightarrow> jsnumber) \<Rightarrow> 'a list \<Rightarrow> 'a list" where
  "array_sort cmp xs = foldr (insert_cmp cmp) xs []"

section \<open>script.js: the single-game engine\<close>

text \<open>
  A tier as \<open>parseCalotteryHtml\<close> and \<open>collectManualInput\<close> build it: every numeric
  field is a Number (possibly \<open>NaN\<close>), \<open>isTicket\<close> a boolean.
\<close>

record tier =
  prize :: string
  "value" :: jsnumber
  isTicket :: bool
  odds :: jsnumber
  remaining :: jsnumber
  total :: jsnumber

record game =
  name :: string
  number :: string
  ticketPrice :: jsnumber
  claimedOdds :: string
  claimedCashOdds :: string
  tiers :: "tier list"

record options =
  ignoreUnder500 :: bool
  applyTax :: bool
  taxRate :: jsnumber

text \<open>One element of the \<open>tiers\<close> array of a result of \<open>computeEV\<close>.\<close>

record tier_result =
  tr_prize :: string
  tr_value :: jsnumber
  oddsText :: string
  tr_remaining :: jsnumber
  tr_total :: jsnumber
  parsedN :: jsnumber
  tierTicketEst :: jsnumber
  probability :: jsnumber
  adjustedValue :: jsnumber
  evContribution :: jsnumber
  tr_isTicket :: bool

record ev_result =
  ev_ticketPrice :: jsnumber
  M :: jsnumber
  "method" :: string
  evGross :: jsnumber
  evNet :: jsnumber
  ev_tiers :: "tier_result list"

text \<open>The em dash of the source, as its UTF-8 bytes.\<close>

definition em_dash :: string where
  "em_dash = [CHR 0xE2, CHR 0x80, CHR 0x94]"

text \<open>\<open>formatNum(n)\<close> with \<open>decimals\<close> left out, the only way \<open>computeEV\<close> calls it.\<close>

definition formatNum :: "host \<Rightarrow> jsnumber \<Rightarrow> string" where
  "formatNum h n = (if isInteger n then toLocaleString h n else toLocaleString2 h n)"

text \<open>The two failure values of \<open>computeEV\<close>: the strings of its \<open>error\<close> field.\<close>

definition err_precondition :: string where
  "err_precondition = ''Need ticket price and at least one prize tier.''"

definition err_estimate :: string where
  "err_estimate = ''Unable to estimate total remaining tickets.''"

text \<open>\<open>for (const t of tiers) if (t.isTicket) t.value = ticketPrice;\<close>\<close>

definition resolveTicket :: "jsnumber \<Rightarrow> tier \<Rightarrow> tier" where
  "resolveTicket tp t = (if isTicket t then t\<lparr>value := tp\<rparr> else t)"

fun resolveTickets :: "jsnumber \<Rightarrow> tier list \<Rightarrow> tier list" where
  "resolveTickets tp [] = []"
| "resolveTickets tp (t # ts) = resolveTicket tp t # resolveTickets tp ts"

text \<open>The predicate of \<open>tiers.find\<close> in method A.\<close>

definition anchorOk :: "tier \<Rightarrow> bool" where
  "anchorOk t =
     (isTicket t \<and> jgt (total t) (Fin 0) \<and> jgt (remaining t) (Fin 0) \<and> \<not> isNaN (odds t))"

text \<open>Method A on the tier found: \<open>M0 = total * odds; f = remaining / total; M = M0 * f\<close>.\<close>

definition anchorM :: "tier \<Rightarrow> jsnumber" where
  "anchorM t =
     (let M0 = jmul (total t) (odds t);
          f = jdiv (remaining t) (total t)
      in jmul M0 f)"

text \<open>\<open>M\<close> starts as \<open>null\<close> (\<open>None\<close>) and \<open>method\<close> as the empty string.\<close>

definition methodA :: "tier list \<Rightarrow> jsnumber option \<times> string" where
  "methodA ts =
     (case List.find anchorOk ts of
        Some t \<Rightarrow> (Some (anchorM t), ''Ticket-tier anchor'')
      | None \<Rightarrow> (None, ''''))"

text \<open>\<open>!M || M <= 0\<close>, with \<open>M\<close> possibly still \<open>null\<close>.\<close>

definition noEstimate :: "jsnumber option \<Rightarrow> bool" where
  "noEstimate m = (case m of None \<Rightarrow> True | Some x \<Rightarrow> \<not> truthy x \<or> jle x (Fin 0))"

text \<open>The filter and the map of method B.\<close>

definition estimateOk :: "tier \<Rightarrow> bool" where
  "estimateOk t = (jgt (remaining t) (Fin 0) \<and> \<not> isNaN (odds t) \<and> jgt (odds t) (Fin 0))"

definition estimates :: "tier list \<Rightarrow> jsnumber list" where
  "estimates ts = map (\<lambda>t. jmul (remaining t) (odds t)) (filter estimateOk ts)"

text \<open>
  The median as method B takes it from the sorted array; called on a non-empty array
  only, so both indices are in range.
\<close>

definition medianSorted :: "jsnumber list \<Rightarrow> jsnumber" where
  "medianSorted es =
     (let mid = length es div 2
      in if length es mod 2 = 0
         then jdiv (jadd (es ! (mid - 1)) (es ! mid)) (Fin 2)
         else es ! mid)"

definition methodB :: "tier list \<Rightarrow> jsnumber option \<times> string \<Rightarrow> jsnumber option \<times> string" where
  "methodB ts mm =
     (if noEstimate (fst mm) then
        (let es = estimates ts
         in if 0 < length es
            then (Some (medianSorted (array_sort (\<lambda>a b. jsub a b) es)), ''Median fallback'')
            else mm)
      else mm)"

text \<open>The pool estimate of \<open>computeEV\<close>: method A, then method B when A gave nothing usable.\<close>

definition estimateM :: "tier list \<Rightarrow> jsnumber option \<times> string" where
  "estimateM ts = methodB ts (methodA ts)"

text \<open>The body of the per-tier loop for one tier: the adjusted value.\<close>

definition adjusted_of :: "options \<Rightarrow> tier \<Rightarrow> jsnumber" where
  "adjusted_of opts t =
     (let adjusted = value t;
          adjusted = (if ignoreUnder500 opts \<and> \<not> isTicket t \<and> jgt adjusted (Fin 0)
                         \<and> jlt adjusted (Fin 500)
                      then Fin 0 else adjusted);
          adjusted = (if applyTax opts \<and> \<not> isTicket t \<and> jgt adjusted (Fin 0)
                      then jmul adjusted (jsub (Fin 1) (jdiv (taxRate opts) (Fin 100)))
                      else adjusted)
      in adjusted)"

definition tierResult :: "host \<Rightarrow> options \<Rightarrow> jsnumber \<Rightarrow> tier \<Rightarrow> tier_result" where
  "tierResult h opts m t =
     (let p = jdiv (remaining t) m;
          adjusted = adjusted_of opts t;
          contribution = jmul p adjusted
      in \<lparr> tr_prize = prize t,
           tr_value = value t,
           oddsText = (if truthy (odds t) then ''1 in '' @ formatNum h (odds t) else em_dash),
           tr_remaining = remaining t,
           tr_total = total t,
           parsedN = odds t,
           tierTicketEst = jmul (remaining t) (if truthy (odds t) then odds t else Fin 0),
           probability = p,
           adjustedValue = adjusted,
           evContribution = contribution,
           tr_isTicket = isTicket t \<rparr>)"

text \<open>
  The loop \<open>for (const t of tiers)\<close> with its two accumulators, \<open>tierResults\<close> and
  \<open>evGross\<close>.
\<close>

fun tierLoop ::
  "host \<Rightarrow> options \<Rightarrow> jsnumber \<Rightarrow> tier list \<Rightarrow> tier_result list \<Rightarrow> jsnumber
     \<Rightarrow> tier_result list \<times> jsnumber" where
  "tierLoop h opts m [] tierResults evG = (tierResults, evG)"
| "tierLoop h opts m (t # ts) tierResults evG =
     (let r = tierResult h opts m t
      in tierLoop h opts m ts (tierResults @ [r]) (jadd evG (evContribution r)))"

text \<open>
  \<open>computeEV(game, options)\<close>. The result is the returned object (\<open>Inl\<close> the
  \<open>error\<close> string) together with the game as the call leaves it: the first loop
  writes the ticket price into the ticket tiers of the caller's object.
\<close>

definition computeEV :: "host \<Rightarrow> game \<Rightarrow> options \<Rightarrow> (string + ev_result) \<times> game" where
  "computeEV h g opts =
     (if \<not> truthy (ticketPrice g) \<or> length (tiers g) = 0 then (Inl err_precondition, g)
      else
        let ts = resolveTickets (ticketPrice g) (tiers g);
            g' = g\<lparr>tiers := ts\<rparr>;
            (m, meth) = estimateM ts
        in if noEstimate m then (Inl err_estimate, g')
           else
             let (tierResults, evG) = tierLoop h opts (the m) ts [] (Fin 0);
                 evN = jsub evG (ticketPrice g)
             in (Inr \<lparr> ev_ticketPrice = ticketPrice g, M = the m, method = meth,
                        evGross = evG, evNet = evN, ev_tiers = tierResults \<rparr>, g'))"

text \<open>
  \<open>computeEV\<close> above is the function on a game whose \<open>tiers\<close> is an array and
  on an options object, which is what the module's own callers pass. The function is also
  exported (\<open>window._scratcherCalc\<close>); \<open>computeEV_call\<close> is the call as any caller
  can make it, with the exception it can raise: destructuring \<open>options\<close> throws when
  it is \<open>undefined\<close>, reading a property of an \<open>undefined\<close> game throws,
  \<open>tiers.length\<close> throws when the price is truthy and the game has no \<open>tiers\<close>,
  and \<open>t.isTicket\<close> throws on a \<open>null\<close> element of the array. (\<open>tiers\<close> is
  taken to be an array or missing.) Only the returned value is kept here.
\<close>

datatype js_error = TypeError

record js_game =
  jg_name :: string
  jg_number :: string
  jg_ticketPrice :: jsnumber
  jg_claimedOdds :: string
  jg_claimedCashOdds :: string
  jg_tiers :: "tier option list option"

definition as_game :: "js_game \<Rightarrow> tier list \<Rightarrow> game" where
  "as_game jg ts =
     \<lparr> name = jg_name jg, number = jg_number jg, ticketPrice = jg_ticketPrice jg,
       claimedOdds = jg_claimedOdds jg, claimedCashOdds = jg_claimedCashOdds jg, tiers = ts \<rparr>"

definition computeEV_call ::
  "host \<Rightarrow> js_game option \<Rightarrow> options option \<Rightarrow> js_error + (string + ev_result)" where
  "computeEV_call h game opts =
     (case opts of
        None \<Rightarrow> Inl TypeError
      | Some os \<Rightarrow>
          (case game of
             None \<Rightarrow> Inl TypeError
           | Some jg \<Rightarrow>
               if \<not> truthy (jg_ticketPrice jg) then Inr (Inl err_precondition)
               else (case jg_tiers jg of
                       None \<Rightarrow> Inl TypeError
                     | Some ts \<Rightarrow>
                         if list_ex (\<lambda>t. t = None) ts then Inl TypeError
                         else Inr (fst (computeEV h (as_game jg (map the ts)) os)))))"

section \<open>scratchers.js: the multi-game overview engine\<close>

text \<open>
  The games of this engine come from pasted JSON, so a game or a tier may be \<open>null\<close>,
  a field may be missing, and \<open>value\<close>, \<open>odds\<close> and the counts may be a number or
  a string; the price is a number or missing. Strings are ASCII: the whitespace
  class \<open>\s\<close> and \<open>toLowerCase\<close> are modelled on ASCII characters only.
\<close>

datatype jsval = JNum jsnumber | JStr string | JUndefined

definition is_space :: "char \<Rightarrow> bool" where
  "is_space c = (c \<in> set [CHR 0x09, CHR 0x0A, CHR 0x0B, CHR 0x0C, CHR 0x0D, CHR '' ''])"

definition trim :: "string \<Rightarrow> string" where
  "trim s = rev (dropWhile is_space (rev (dropWhile is_space s)))"

definition lower_char :: "char \<Rightarrow> char" where
  "lower_char c =
     (let n = (of_char c :: nat) in if 65 \<le> n \<and> n \<le> 90 then char_of (n + 32) else c)"

definition toLowerCase :: "string \<Rightarrow> string" where
  "toLowerCase s = map lower_char s"

text \<open>\<open>parseCurrency\<close>; \<open>replace(/[$,\s]/g, '')\<close> drops those characters.\<close>

definition parseCurrency :: "host \<Rightarrow> jsval \<Rightarrow> jsnumber" where
  "parseCurrency h str =
     (case str of
        JNum n \<Rightarrow> n
      | JUndefined \<Rightarrow> NaN
      | JStr s \<Rightarrow>
          if s = [] then NaN
          else parseFloat h (filter (\<lambda>c. \<not> (c = CHR ''$'' \<or> c = CHR '','' \<or> is_space c)) s))"

text \<open>
  The regular expression \<open>/1\s+in\s+([\d,.]+)/i\<close>: \<open>match_one_in_here\<close> matches it at
  the head of the string and returns group 1, \<open>match_one_in\<close> tries every start from the
  left, as \<open>String.prototype.match\<close> does.
\<close>

definition is_odds_char :: "char \<Rightarrow> bool" where
  "is_odds_char c =
     (let n = (of_char c :: nat) in (48 \<le> n \<and> n \<le> 57) \<or> c = CHR '','' \<or> c = CHR ''.'')"

definition match_one_in_here :: "string \<Rightarrow> string option" where
  "match_one_in_here s =
     (case s of
        [] \<Rightarrow> None
      | c # r \<Rightarrow>
          if c \<noteq> CHR ''1'' then None
          else
            let r1 = dropWhile is_space r
            in if length r1 = length r then None
               else (case r1 of
                       i # n # r2 \<Rightarrow>
                         if lower_char i = CHR ''i'' \<and> lower_char n = CHR ''n'' then
                           (let r3 = dropWhile is_space r2;
                                grp = takeWhile is_odds_char r3
                            in if length r3 = length r2 \<or> grp = [] then None else Some grp)
                         else None
                     | _ \<Rightarrow> None))"

fun match_one_in :: "string \<Rightarrow> string option" where
  "match_one_in [] = None"
| "match_one_in (c # cs) =
     (case match_one_in_here (c # cs) of Some grp \<Rightarrow> Some grp | None \<Rightarrow> match_one_in cs)"

text \<open>\<open>parseOdds\<close> of scratchers.js (its last line parses the untrimmed string).\<close>

definition parseOdds :: "host \<Rightarrow> jsval \<Rightarrow> jsnumber" where
  "parseOdds h str =
     (case str of
        JNum n \<Rightarrow> n
      | JUndefined \<Rightarrow> NaN
      | JStr s \<Rightarrow>
          if s = [] then NaN
          else (case match_one_in (trim s) of
                  Some grp \<Rightarrow> parseCurrency h (JStr grp)
                | None \<Rightarrow> parseCurrency h (JStr s)))"

text \<open>\<open>isTicketTier\<close> on a string (the only type \<open>computeOverview\<close> passes).\<close>

definition isTicketTier :: "string \<Rightarrow> bool" where
  "isTicketTier val =
     (let s = toLowerCase (trim val)
      in s = ''ticket'' \<or> s = ''free ticket'' \<or> sublist ''free ticket'' s)"

text \<open>\<open>adjustValue(value, isTicket, options)\<close>\<close>

definition adjustValue :: "jsnumber \<Rightarrow> bool \<Rightarrow> options \<Rightarrow> jsnumber" where
  "adjustValue v isTkt opts =
     (let a = v;
          a = (if ignoreUnder500 opts \<and> \<not> isTkt \<and> jgt a (Fin 0) \<and> jlt a (Fin 500)
               then Fin 0 else a);
          a = (if applyTax opts \<and> \<not> isTkt \<and> jgt a (Fin 0)
               then jmul a (jsub (Fin 1) (jdiv (taxRate opts) (Fin 100))) else a)
      in a)"

text \<open>
  Values of the pasted JSON. A count (\<open>remaining\<close>, \<open>total\<close>, \<open>initial\<close>) may be
  a number, a string or missing, and the code never converts it: \<open>val_num\<close> is the
  conversion JavaScript applies where a number is needed (\<open>*\<close>, \<open>/\<close>, \<open>>\<close>),
  \<open>val_str\<close> the one it applies when \<open>+\<close> meets a string, \<open>js_plus\<close> is \<open>+\<close>
  itself, and \<open>val_is_zero\<close> is \<open>v === 0\<close>.
\<close>

definition val_truthy :: "jsval \<Rightarrow> bool" where
  "val_truthy v = (case v of JNum n \<Rightarrow> truthy n | JStr s \<Rightarrow> s \<noteq> [] | JUndefined \<Rightarrow> False)"

definition val_or :: "jsval \<Rightarrow> jsval \<Rightarrow> jsval" where
  "val_or a b = (if val_truthy a then a else b)"

definition val_num :: "host \<Rightarrow> jsval \<Rightarrow> jsnumber" where
  "val_num h v = (case v of JNum n \<Rightarrow> n | JStr s \<Rightarrow> toNumber h s | JUndefined \<Rightarrow> NaN)"

definition val_str :: "host \<Rightarrow> jsval \<Rightarrow> string" where
  "val_str h v =
     (case v of JNum n \<Rightarrow> numberToString h n | JStr s \<Rightarrow> s | JUndefined \<Rightarrow> ''undefined'')"

definition is_str :: "jsval \<Rightarrow> bool" where
  "is_str v = (case v of JStr s \<Rightarrow> True | _ \<Rightarrow> False)"

definition js_plus :: "host \<Rightarrow> jsval \<Rightarrow> jsval \<Rightarrow> jsval" where
  "js_plus h a b =
     (if is_str a \<or> is_str b then JStr (val_str h a @ val_str h b)
      else JNum (jadd (val_num h a) (val_num h b)))"

definition val_is_zero :: "jsval \<Rightarrow> bool" where
  "val_is_zero v = (case v of JNum n \<Rightarrow> jeq n (Fin 0) | _ \<Rightarrow> False)"

text \<open>A tier of the JSON input; \<open>None\<close> and \<open>JUndefined\<close> are a missing field.\<close>

record raw_tier =
  rt_label :: "string option"
  rt_prize :: "string option"
  rt_value :: jsval
  rt_isTicket :: bool
  rt_odds :: jsval
  rt_remaining :: jsval
  rt_total :: jsval
  rt_initial :: jsval

text \<open>
  The \<open>tiers\<close> field of a game: missing (or \<open>null\<close>), an array whose elements are
  tiers or \<open>null\<close>, or some other truthy value that is not an array.
\<close>

datatype tiers_val = NoTiers | TiersArray "raw_tier option list" | NotArray

record ov_game =
  g_name :: "string option"
  g_number :: "string option"
  price :: "jsnumber option"
  g_claimedOdds :: "string option"
  g_tiers :: tiers_val

text \<open>An element of \<open>resolved\<close>.\<close>

record resolved_tier =
  label :: string
  rawValue :: jsnumber
  rs_odds :: jsnumber
  rs_remaining :: jsval
  rs_total :: jsval
  rs_isTicket :: bool

record overview =
  o_name :: "string option"
  o_number :: string
  o_price :: jsnumber
  claimedOddsText :: string
  claimedOddsVal :: jsnumber
  calcOddsVal :: jsnumber
  claimedEV :: jsnumber
  calcEV :: jsnumber
  deltaPercent :: jsnumber

text \<open>\<open>a || b\<close> for an optional string.\<close>

definition str_or :: "string option \<Rightarrow> string \<Rightarrow> string" where
  "str_or a b = (case a of Some s \<Rightarrow> if s = [] then b else s | None \<Rightarrow> b)"

definition opt_jsval :: "string option \<Rightarrow> jsval" where
  "opt_jsval a = (case a of Some s \<Rightarrow> JStr s | None \<Rightarrow> JUndefined)"

text \<open>The callback of \<open>tiers.map\<close> that builds \<open>resolved\<close>, on a tier object.\<close>

definition resolveTier :: "host \<Rightarrow> jsnumber \<Rightarrow> raw_tier \<Rightarrow> resolved_tier" where
  "resolveTier h pr t =
     (let lbl = str_or (rt_label t) (str_or (rt_prize t) []);
          isTkt = (isTicketTier lbl \<or> rt_isTicket t);
          rawV = (if isTkt then pr else parseCurrency h (rt_value t));
          od = (case rt_odds t of JNum n \<Rightarrow> n | v \<Rightarrow> parseOdds h v);
          rem = val_or (rt_remaining t) (JNum (Fin 0));
          tot = val_or (rt_total t) (val_or (rt_initial t) rem)
      in \<lparr> label = lbl, rawValue = rawV, rs_odds = od, rs_remaining = rem, rs_total = tot,
           rs_isTicket = isTkt \<rparr>)"

text \<open>\<open>tiers.map\<close>: reading \<open>t.label\<close> of a \<open>null\<close> element throws.\<close>

fun resolveAll :: "host \<Rightarrow> jsnumber \<Rightarrow> raw_tier option list \<Rightarrow> js_error + resolved_tier list" where
  "resolveAll h pr [] = Inr []"
| "resolveAll h pr (t # ts) =
     (case t of
        None \<Rightarrow> Inl TypeError
      | Some rt \<Rightarrow>
          (case resolveAll h pr ts of
             Inl e \<Rightarrow> Inl e
           | Inr rs \<Rightarrow> Inr (resolveTier h pr rt # rs)))"

text \<open>The predicate of \<open>resolved.filter\<close>.\<close>

definition validTier :: "host \<Rightarrow> resolved_tier \<Rightarrow> bool" where
  "validTier h t =
     (jgt (val_num h (rs_total t)) (Fin 0) \<and> \<not> isNaN (rs_odds t) \<and> jgt (rs_odds t) (Fin 0))"

text \<open>The two accumulation loops of section 5.2 of the source.\<close>

fun claimedLoop :: "host \<Rightarrow> options \<Rightarrow> resolved_tier list \<Rightarrow> jsnumber \<Rightarrow> jsnumber" where
  "claimedLoop h opts [] claimedGross = claimedGross"
| "claimedLoop h opts (t # ts) claimedGross =
     (let adj = adjustValue (rawValue t) (rs_isTicket t) opts
      in claimedLoop h opts ts (jadd claimedGross (jmul adj (val_num h (rs_total t)))))"

fun calcLoop :: "host \<Rightarrow> options \<Rightarrow> resolved_tier list \<Rightarrow> jsnumber \<Rightarrow> jsnumber" where
  "calcLoop h opts [] calcGross = calcGross"
| "calcLoop h opts (t # ts) calcGross =
     (let adj = adjustValue (rawValue t) (rs_isTicket t) opts
      in calcLoop h opts ts (jadd calcGross (jmul adj (val_num h (rs_remaining t)))))"

text \<open>The intermediate values of \<open>computeOverview\<close>, each as the source computes it.\<close>

definition M0_of :: "host \<Rightarrow> resolved_tier list \<Rightarrow> jsnumber" where
  "M0_of h valid =
     (let Qs = map (\<lambda>t. jmul (rs_odds t) (val_num h (rs_total t))) valid
      in jdiv (foldl (\<lambda>a b. jadd a b) (Fin 0) Qs) (Fin (real (length Qs))))"

definition Tsum_of :: "host \<Rightarrow> resolved_tier list \<Rightarrow> jsval" where
  "Tsum_of h valid = foldl (\<lambda>s t. js_plus h s (rs_total t)) (JNum (Fin 0)) valid"

definition Rsum_of :: "host \<Rightarrow> resolved_tier list \<Rightarrow> jsval" where
  "Rsum_of h valid = foldl (\<lambda>s t. js_plus h s (rs_remaining t)) (JNum (Fin 0)) valid"

text \<open>The rest of \<open>computeOverview\<close>, from the valid tiers on.\<close>

definition overviewOf ::
  "host \<Rightarrow> ov_game \<Rightarrow> jsnumber \<Rightarrow> resolved_tier list \<Rightarrow> options \<Rightarrow> overview option" where
  "overviewOf h gm pr valid opts =
     (if length valid = 0 then None
      else
        let M0 = M0_of h valid;
            Tsum = Tsum_of h valid;
            Rsum = Rsum_of h valid
        in if val_is_zero Tsum \<or> val_is_zero Rsum \<or> jeq M0 (Fin 0) then None
           else
             let Mhat = jmul M0 (jdiv (val_num h Rsum) (val_num h Tsum));
                 calcOdds = jdiv Mhat (val_num h Rsum);
                 claimedGross = jdiv (claimedLoop h opts valid (Fin 0)) M0;
                 claimedNet = jsub claimedGross pr;
                 calcGross = jdiv (calcLoop h opts valid (Fin 0)) Mhat;
                 calcNet = jsub calcGross pr;
                 delta =
                   (if \<not> jeq claimedNet (Fin 0)
                    then jmul (jdiv (jsub calcNet claimedNet) (jabs claimedNet)) (Fin 100)
                    else Fin 0)
             in Some \<lparr> o_name = g_name gm,
                       o_number = str_or (g_number gm) [],
                       o_price = pr,
                       claimedOddsText = str_or (g_claimedOdds gm) em_dash,
                       claimedOddsVal = parseOdds h (opt_jsval (g_claimedOdds gm)),
                       calcOddsVal = calcOdds,
                       claimedEV = claimedNet,
                       calcEV = calcNet,
                       deltaPercent = delta \<rparr>)"

text \<open>
  \<open>computeOverview(game, options)\<close>. \<open>Inr None\<close> is the returned \<open>null\<close>,
  \<open>Inl TypeError\<close> the exception: \<open>game.price\<close> of a \<open>null\<close> game,
  \<open>tiers.map\<close> of a value that is not an array, \<open>t.label\<close> of a \<open>null\<close> tier. The
  first test, \<open>!price || !tiers || tiers.length === 0\<close>, returns before the tiers are
  touched when the price is missing or falsy.
\<close>

definition computeOverview ::
  "host \<Rightarrow> ov_game option \<Rightarrow> options \<Rightarrow> js_error + overview option" where
  "computeOverview h game opts =
     (case game of
        None \<Rightarrow> Inl TypeError
      | Some gm \<Rightarrow>
          (case price gm of
             None \<Rightarrow> Inr None
           | Some pr \<Rightarrow>
               if \<not> truthy pr then Inr None
               else (case g_tiers gm of
                       NoTiers \<Rightarrow> Inr None
                     | NotArray \<Rightarrow> Inl TypeError
                     | TiersArray ts \<Rightarrow>
                         if length ts = 0 then Inr None
                         else (case resolveAll h pr ts of
                                 Inl e \<Rightarrow> Inl e
                               | Inr resolved \<Rightarrow>
                                   Inr (overviewOf h gm pr (filter (validTier h) resolved)
                                          opts)))))"









section \<open>Notions of the specification\<close>

text \<open>
  The pool sizes the two single-game strategies propose for a tier list, in the order
  \<open>computeEV\<close> tries them: the ticket-tier anchor (when a tier qualifies) and the
  median of the per-tier estimates (when there is one).
\<close>

definition candidates :: "tier list \<Rightarrow> jsnumber list" where
  "candidates ts =
     (case List.find anchorOk ts of Some t \<Rightarrow> [anchorM t] | None \<Rightarrow> [])
     @ (if estimates ts = [] then []
        else [medianSorted (array_sort (\<lambda>a b. jsub a b) (estimates ts))])"

text \<open>
  The adjustment pipeline in the words of the specification, for a monetary tier: stage (a)
  zeroes a value strictly between 0 and 500 when \<open>ignoreUnder500\<close> is set, stage (b)
  then multiplies a value that is still positive by \<open>1 - taxRate / 100\<close> when
  \<open>applyTax\<close> is set.
\<close>

definition spec_zero_small :: "options \<Rightarrow> jsnumber \<Rightarrow> jsnumber" where
  "spec_zero_small opts v =
     (if ignoreUnder500 opts \<and> jlt (Fin 0) v \<and> jlt v (Fin 500) then Fin 0 else v)"

definition spec_tax :: "options \<Rightarrow> jsnumber \<Rightarrow> jsnumber" where
  "spec_tax opts a =
     (if applyTax opts \<and> jlt (Fin 0) a
      then jmul a (jsub (Fin 1) (jdiv (taxRate opts) (Fin 100))) else a)"

definition spec_adjust :: "options \<Rightarrow> jsnumber \<Rightarrow> jsnumber" where
  "spec_adjust opts v = spec_tax opts (spec_zero_small opts v)"

text \<open>
  The comparative engine in the words of the specification. A sum over tiers adds their
  values from \<open>0\<close> in the order of the list, as every sum of the source does; the mean
  divides it by their number. Where the specification speaks of a count, this is the
  number the stored count stands for (\<open>val_num\<close>).
\<close>

definition spec_sum :: "jsnumber list \<Rightarrow> jsnumber" where
  "spec_sum xs = foldl (\<lambda>a b. jadd a b) (Fin 0) xs"

definition spec_mean :: "jsnumber list \<Rightarrow> jsnumber" where
  "spec_mean xs = jdiv (spec_sum xs) (Fin (real (length xs)))"

text \<open>A valid tier: \<open>total > 0\<close> and positive numeric odds.\<close>

definition spec_valid :: "host \<Rightarrow> resolved_tier \<Rightarrow> bool" where
  "spec_valid h t =
     (jlt (Fin 0) (val_num h (rs_total t)) \<and> rs_odds t \<noteq> NaN \<and> jlt (Fin 0) (rs_odds t))"

text \<open>
  The sums of total and remaining counts, the launch-state pool \<open>M0\<close> (the mean of
  \<open>odds * total\<close>), the current-state pool
  \<open>Mhat = M0 * (sum(remaining) / sum(total))\<close>, and the two gross EVs.
\<close>

definition spec_Tsum :: "host \<Rightarrow> resolved_tier list \<Rightarrow> jsnumber" where
  "spec_Tsum h valid = spec_sum (map (\<lambda>t. val_num h (rs_total t)) valid)"

definition spec_Rsum :: "host \<Rightarrow> resolved_tier list \<Rightarrow> jsnumber" where
  "spec_Rsum h valid = spec_sum (map (\<lambda>t. val_num h (rs_remaining t)) valid)"

definition spec_M0 :: "host \<Rightarrow> resolved_tier list \<Rightarrow> jsnumber" where
  "spec_M0 h valid = spec_mean (map (\<lambda>t. jmul (rs_odds t) (val_num h (rs_total t))) valid)"

definition spec_Mhat :: "host \<Rightarrow> resolved_tier list \<Rightarrow> jsnumber" where
  "spec_Mhat h valid = jmul (spec_M0 h valid) (jdiv (spec_Rsum h valid) (spec_Tsum h valid))"

definition spec_claimedGross :: "host \<Rightarrow> options \<Rightarrow> resolved_tier list \<Rightarrow> jsnumber" where
  "spec_claimedGross h opts valid =
     jdiv (spec_sum (map (\<lambda>t. jmul (adjustValue (rawValue t) (rs_isTicket t) opts)
                                  (val_num h (rs_total t))) valid))
          (spec_M0 h valid)"

definition spec_calcGross :: "host \<Rightarrow> options \<Rightarrow> resolved_tier list \<Rightarrow> jsnumber" where
  "spec_calcGross h opts valid =
     jdiv (spec_sum (map (\<lambda>t. jmul (adjustValue (rawValue t) (rs_isTicket t) opts)
                                  (val_num h (rs_remaining t))) valid))
          (spec_Mhat h valid)"

text \<open>
  Input the engine is written for: the game is an object, its \<open>tiers\<close> are missing
  or an array of tier objects, and the counts of every tier are numbers or missing, not
  strings.
\<close>

definition numeric_counts :: "raw_tier \<Rightarrow> bool" where
  "numeric_counts t =
     (\<not> is_str (rt_remaining t) \<and> \<not> is_str (rt_total t) \<and> \<not> is_str (rt_initial t))"

definition well_formed :: "ov_game option \<Rightarrow> bool" where
  "well_formed game =
     (case game of
        None \<Rightarrow> False
      | Some gm \<Rightarrow>
          (case g_tiers gm of
             NotArray \<Rightarrow> False
           | NoTiers \<Rightarrow> True
           | TiersArray ts \<Rightarrow>
               list_all (\<lambda>t. case t of None \<Rightarrow> False | Some rt \<Rightarrow> numeric_counts rt) ts))"

text \<open>
  The games the specification has skipped in batch mode: zero valid tiers (a missing tier
  list counts as empty), zero total tickets, zero remaining tickets or zero \<open>M0\<close>.
\<close>

definition tiers_of :: "ov_game \<Rightarrow> raw_tier list" where
  "tiers_of gm = (case g_tiers gm of TiersArray ts \<Rightarrow> map the ts | _ \<Rightarrow> [])"

definition price_of :: "ov_game \<Rightarrow> jsnumber" where
  "price_of gm = (case price gm of Some p \<Rightarrow> p | None \<Rightarrow> Fin 0)"

definition spec_validTiers :: "host \<Rightarrow> ov_game \<Rightarrow> resolved_tier list" where
  "spec_validTiers h gm = filter (spec_valid h) (map (resolveTier h (price_of gm)) (tiers_of gm))"






section \<open>Example inputs\<close>

text \<open>
  A stand-in for the host functions, enough to run the engines on the example games:
  \<open>demo_toNumber\<close> agrees with the host on strings of decimal digits and
  \<open>demo_numberToString\<close> on the non-negative integers.
\<close>

definition digit_of :: "char \<Rightarrow> nat" where
  "digit_of c = of_char c - 48"

definition is_digit :: "char \<Rightarrow> bool" where
  "is_digit c = (48 \<le> (of_char c :: nat) \<and> (of_char c :: nat) \<le> 57)"

definition demo_toNumber :: "string \<Rightarrow> jsnumber" where
  "demo_toNumber s =
     (if list_all is_digit s then Fin (real (foldl (\<lambda>a c. 10 * a + digit_of c) 0 s)) else NaN)"

fun decimal :: "nat \<Rightarrow> string" where
  "decimal n =
     (if n < 10 then [char_of (48 + n)] else decimal (n div 10) @ [char_of (48 + n mod 10)])"

definition demo_numberToString :: "jsnumber \<Rightarrow> string" where
  "demo_numberToString n =
     (case n of
        Fin x \<Rightarrow> if 0 \<le> x \<and> real_of_int \<lfloor>x\<rfloor> = x then decimal (nat \<lfloor>x\<rfloor>) else ''NaN''
      | _ \<Rightarrow> ''NaN'')"

definition demo_host :: host where
  "demo_host = \<lparr> parseFloat = (\<lambda>s. NaN), toLocaleString = (\<lambda>n. ''N''),
      toLocaleString2 = (\<lambda>n. ''N''), toNumber = demo_toNumber,
      numberToString = demo_numberToString \<rparr>"

definition plain_options :: options where
  "plain_options = \<lparr> ignoreUnder500 = False, applyTax = False, taxRate = Fin 24 \<rparr>"

definition ticket_zero_odds :: tier where
  "ticket_zero_odds = \<lparr> prize = ''Ticket'', value = NaN, isTicket = True, odds = Fin 0,
      remaining = Fin 10, total = Fin 10 \<rparr>"

definition cash_100 :: tier where
  "cash_100 = \<lparr> prize = ''$100'', value = Fin 100, isTicket = False, odds = Fin 4,
      remaining = Fin 5, total = Fin 5 \<rparr>"

definition game_zero_odds :: game where
  "game_zero_odds = \<lparr> name = ''Demo'', number = ''1'', ticketPrice = Fin 2, claimedOdds = [],
      claimedCashOdds = [], tiers = [ticket_zero_odds, cash_100] \<rparr>"

definition ticket_12 :: tier where
  "ticket_12 = \<lparr> prize = ''Ticket'', value = NaN, isTicket = True, odds = Fin 12,
      remaining = Fin 30, total = Fin 40 \<rparr>"

definition game_anchor :: game where
  "game_anchor = \<lparr> name = ''Demo'', number = ''2'', ticketPrice = Fin 2, claimedOdds = [],
      claimedCashOdds = [], tiers = [cash_100, ticket_12] \<rparr>"

definition ticket_sold_out :: tier where
  "ticket_sold_out = \<lparr> prize = ''Ticket'', value = NaN, isTicket = True, odds = Fin 12,
      remaining = Fin 0, total = Fin 100 \<rparr>"

definition cash_1000 :: tier where
  "cash_1000 = \<lparr> prize = ''$1,000'', value = Fin 1000, isTicket = False, odds = Fin 50,
      remaining = Fin 2, total = Fin 5 \<rparr>"

definition game_sold_out :: game where
  "game_sold_out = \<lparr> name = ''Demo'', number = ''3'', ticketPrice = Fin 2, claimedOdds = [],
      claimedCashOdds = [], tiers = [ticket_sold_out, cash_1000] \<rparr>"

definition ticket_inf_odds :: tier where
  "ticket_inf_odds = \<lparr> prize = ''Ticket'', value = NaN, isTicket = True, odds = PosInf,
      remaining = Fin 5, total = Fin 10 \<rparr>"

definition game_inf_odds :: game where
  "game_inf_odds = \<lparr> name = ''Demo'', number = ''4'', ticketPrice = Fin 2, claimedOdds = [],
      claimedCashOdds = [], tiers = [ticket_inf_odds] \<rparr>"

definition game_no_price :: game where
  "game_no_price = \<lparr> name = ''Demo'', number = ''5'', ticketPrice = Fin 0, claimedOdds = [],
      claimedCashOdds = [], tiers = [cash_100] \<rparr>"

definition cash_no_odds :: tier where
  "cash_no_odds = \<lparr> prize = ''$5'', value = Fin 5, isTicket = False, odds = NaN,
      remaining = Fin 7, total = Fin 9 \<rparr>"

definition game_no_odds :: game where
  "game_no_odds = \<lparr> name = ''Demo'', number = ''6'', ticketPrice = Fin 2, claimedOdds = [],
      claimedCashOdds = [], tiers = [cash_no_odds] \<rparr>"

definition tax_options :: options where
  "tax_options = \<lparr> ignoreUnder500 = True, applyTax = True, taxRate = Fin 25 \<rparr>"

definition cash_nan :: tier where
  "cash_nan = \<lparr> prize = ''Car'', value = NaN, isTicket = False, odds = Fin 8,
      remaining = Fin 1, total = Fin 1 \<rparr>"

definition game_mixed :: game where
  "game_mixed = \<lparr> name = ''Demo'', number = ''7'', ticketPrice = Fin 2, claimedOdds = [],
      claimedCashOdds = [], tiers = [cash_1000, cash_100, ticket_12] \<rparr>"

definition game_nan :: game where
  "game_nan = \<lparr> name = ''Demo'', number = ''8'', ticketPrice = Fin 2, claimedOdds = [],
      claimedCashOdds = [], tiers = [cash_100, cash_nan, ticket_12] \<rparr>"

definition js_game_no_tiers :: js_game where
  "js_game_no_tiers = \<lparr> jg_name = ''Demo'', jg_number = ''9'', jg_ticketPrice = Fin 2,
      jg_claimedOdds = [], jg_claimedCashOdds = [], jg_tiers = None \<rparr>"

definition js_game_anchor :: js_game where
  "js_game_anchor = \<lparr> jg_name = ''Demo'', jg_number = ''2'', jg_ticketPrice = Fin 2,
      jg_claimedOdds = [], jg_claimedCashOdds = [],
      jg_tiers = Some [Some cash_100, Some ticket_12] \<rparr>"

definition js_game_null_tier :: js_game where
  "js_game_null_tier = \<lparr> jg_name = ''Demo'', jg_number = ''12'', jg_ticketPrice = Fin 2,
      jg_claimedOdds = [], jg_claimedCashOdds = [], jg_tiers = Some [Some cash_100, None] \<rparr>"

definition cash_car :: tier where
  "cash_car = \<lparr> prize = ''Car'', value = NaN, isTicket = False, odds = NaN,
      remaining = Fin 1, total = Fin 1 \<rparr>"

definition game_car :: game where
  "game_car = \<lparr> name = ''Demo'', number = ''10'', ticketPrice = Fin 2, claimedOdds = [],
      claimedCashOdds = [], tiers = [cash_car] \<rparr>"

definition cash_8 :: tier where
  "cash_8 = \<lparr> prize = ''$8'', value = Fin 8, isTicket = False, odds = Fin 8,
      remaining = Fin 1, total = Fin 3 \<rparr>"

definition cash_30 :: tier where
  "cash_30 = \<lparr> prize = ''$30'', value = Fin 30, isTicket = False, odds = Fin 10,
      remaining = Fin 3, total = Fin 3 \<rparr>"

definition game_four_cash :: game where
  "game_four_cash = \<lparr> name = ''Demo'', number = ''11'', ticketPrice = Fin 2, claimedOdds = [],
      claimedCashOdds = [], tiers = [cash_100, cash_1000, cash_8, cash_30] \<rparr>"

definition num_tier :: "real \<Rightarrow> real \<Rightarrow> real \<Rightarrow> real \<Rightarrow> raw_tier" where
  "num_tier v od rem tot =
     \<lparr> rt_label = None, rt_prize = None, rt_value = JNum (Fin v), rt_isTicket = False,
       rt_odds = JNum (Fin od), rt_remaining = JNum (Fin rem), rt_total = JNum (Fin tot),
       rt_initial = JUndefined \<rparr>"

definition str_tier :: "real \<Rightarrow> real \<Rightarrow> string \<Rightarrow> string \<Rightarrow> raw_tier" where
  "str_tier v od rem tot =
     \<lparr> rt_label = None, rt_prize = None, rt_value = JNum (Fin v), rt_isTicket = False,
       rt_odds = JNum (Fin od), rt_remaining = JStr rem, rt_total = JStr tot,
       rt_initial = JUndefined \<rparr>"

definition free_ticket_tier :: raw_tier where
  "free_ticket_tier =
     \<lparr> rt_label = Some ''Ticket'', rt_prize = None, rt_value = JStr ''Ticket'',
       rt_isTicket = True, rt_odds = JNum (Fin 2), rt_remaining = JNum (Fin 10),
       rt_total = JNum (Fin 20), rt_initial = JUndefined \<rparr>"

definition ov_game_of :: "string \<Rightarrow> real \<Rightarrow> raw_tier list \<Rightarrow> ov_game" where
  "ov_game_of nm pr ts =
     \<lparr> g_name = Some nm, g_number = None, price = Some (Fin pr), g_claimedOdds = None,
       g_tiers = TiersArray (map Some ts) \<rparr>"

definition ov_game_a :: ov_game where
  "ov_game_a = ov_game_of ''A'' 2 [num_tier 100 4 4 10, free_ticket_tier]"

definition ov_game_b :: ov_game where
  "ov_game_b = ov_game_of ''B'' (125 / 4) [num_tier 100 4 5 10, num_tier 50 8 1 5]"





definition ov_game_str :: ov_game where
  "ov_game_str = ov_game_of ''S'' 2 [str_tier 100 4 ''5'' ''10'', str_tier 50 8 ''1'' ''5'']"



definition ov_result_a :: overview where
  "ov_result_a =
     \<lparr> o_name = Some ''A'', o_number = [], o_price = Fin 2, claimedOddsText = em_dash,
       claimedOddsVal = NaN, calcOddsVal = Fin (4 / 3), claimedEV = Fin 24,
       calcEV = Fin (41 / 2), deltaPercent = Fin (- (175 / 12)) \<rparr>"

definition ov_result_b :: overview where
  "ov_result_b =
     \<lparr> o_name = Some ''B'', o_number = [], o_price = Fin (125 / 4), claimedOddsText = em_dash,
       claimedOddsVal = NaN, calcOddsVal = Fin (8 / 3), claimedEV = Fin 0,
       calcEV = Fin (25 / 8), deltaPercent = Fin 0 \<rparr>"




section \<open>Auxiliary lemmas\<close>

lemma resolveTickets_map: "resolveTickets tp ts = map (resolveTicket tp) ts"
  by (induction ts) simp_all

lemma anchorOk_resolveTicket: "anchorOk (resolveTicket tp t) = anchorOk t"
  by (simp add: anchorOk_def resolveTicket_def)

lemma anchorM_resolveTicket: "anchorM (resolveTicket tp t) = anchorM t"
  by (simp add: anchorM_def resolveTicket_def)

lemma estimateOk_resolveTicket: "estimateOk (resolveTicket tp t) = estimateOk t"
  by (simp add: estimateOk_def resolveTicket_def)

lemma find_resolveTickets:
  "List.find anchorOk (resolveTickets tp ts) = map_option (resolveTicket tp) (List.find anchorOk ts)"
  by (induction ts) (simp_all add: anchorOk_resolveTicket)

lemma methodA_resolveTickets: "methodA (resolveTickets tp ts) = methodA ts"
  by (simp add: methodA_def find_resolveTickets anchorM_resolveTicket split: option.splits)

lemma estimates_resolveTickets: "estimates (resolveTickets tp ts) = estimates ts"
proof (induction ts)
  case Nil
  show ?case by (simp add: estimates_def)
next
  case (Cons t ts)
  have "remaining (resolveTicket tp t) = remaining t" "odds (resolveTicket tp t) = odds t"
    by (simp_all add: resolveTicket_def)
  with Cons show ?case
    by (simp add: estimates_def estimateOk_resolveTicket)
qed

lemma estimateM_resolveTickets: "estimateM (resolveTickets tp ts) = estimateM ts"
  by (simp add: estimateM_def methodB_def methodA_resolveTickets estimates_resolveTickets)

lemma tierLoop_eq:
  "tierLoop h opts m ts rs ev =
     (rs @ map (tierResult h opts m) ts,
      foldl jadd ev (map (\<lambda>t. evContribution (tierResult h opts m t)) ts))"
  by (induction ts arbitrary: rs ev) (simp_all add: Let_def)

lemma computeEV_precondition:
  "\<not> truthy (ticketPrice g) \<or> tiers g = [] \<Longrightarrow> computeEV h g opts = (Inl err_precondition, g)"
  by (auto simp: computeEV_def)

lemma computeEV_no_estimate:
  assumes "truthy (ticketPrice g)" "tiers g \<noteq> []" "noEstimate (fst (estimateM (tiers g)))"
  shows "computeEV h g opts =
           (Inl err_estimate, g\<lparr>tiers := resolveTickets (ticketPrice g) (tiers g)\<rparr>)"
  using assms by (simp add: computeEV_def estimateM_resolveTickets Let_def split_beta)

lemma computeEV_result:
  assumes "truthy (ticketPrice g)" "tiers g \<noteq> []" "\<not> noEstimate (fst (estimateM (tiers g)))"
  shows "computeEV h g opts =
           (let ts = resolveTickets (ticketPrice g) (tiers g);
                m = the (fst (estimateM (tiers g)));
                rs = map (tierResult h opts m) ts;
                evG = foldl jadd (Fin 0) (map evContribution rs)
            in (Inr \<lparr> ev_ticketPrice = ticketPrice g, M = m, method = snd (estimateM (tiers g)),
                       evGross = evG, evNet = jsub evG (ticketPrice g), ev_tiers = rs \<rparr>,
                g\<lparr>tiers := ts\<rparr>))"
  using assms
  by (simp add: computeEV_def estimateM_resolveTickets Let_def split_beta tierLoop_eq o_def)

lemma mset_insert_cmp: "mset (insert_cmp cmp x ys) = add_mset x (mset ys)"
  by (induction ys) simp_all

lemma mset_array_sort: "mset (array_sort cmp xs) = mset xs"
  by (induction xs) (simp_all add: array_sort_def mset_insert_cmp)

lemma length_array_sort: "length (array_sort cmp xs) = length xs"
  using mset_array_sort [of cmp xs] by (metis size_mset)

lemma set_array_sort: "set (array_sort cmp xs) = set xs"
  using mset_array_sort [of cmp xs] by (metis set_mset_mset)

lemma jle_trans: "jle a b \<Longrightarrow> jle b c \<Longrightarrow> jle a c"
  by (cases a; cases b; cases c) (simp_all add: jle_def)

lemma jsub_pos_iff: "a \<noteq> NaN \<Longrightarrow> b \<noteq> NaN \<Longrightarrow> jgt (jsub a b) (Fin 0) = jlt b a"
  by (cases a; cases b) (simp_all add: jgt_def jsub_def)

lemma jle_total: "a \<noteq> NaN \<Longrightarrow> b \<noteq> NaN \<Longrightarrow> \<not> jlt b a \<Longrightarrow> jle a b"
  by (simp add: jle_def)

lemma jlt_imp_jle: "jlt a b \<Longrightarrow> jle a b"
  by (cases a; cases b) (simp_all add: jle_def)

lemma sorted_insert_cmp:
  assumes "sorted_wrt jle ys" "x \<noteq> NaN" "\<forall>y\<in>set ys. y \<noteq> NaN"
  shows "sorted_wrt jle (insert_cmp (\<lambda>a b. jsub a b) x ys)"
  using assms
proof (induction ys)
  case Nil
  then show ?case by simp
next
  case (Cons y ys)
  show ?case
  proof (cases "jlt y x")
    case True
    have "set (insert_cmp (\<lambda>a b. jsub a b) x ys) = insert x (set ys)"
      using mset_insert_cmp [of "\<lambda>a b. jsub a b" x ys] by (metis set_mset_add_mset_insert set_mset_mset)
    with Cons True show ?thesis
      by (auto simp: jsub_pos_iff jlt_imp_jle)
  next
    case False
    with Cons.prems have xy: "jle x y" by (simp add: jle_total)
    with Cons.prems have "\<forall>z\<in>set ys. jle x z" by (auto intro: jle_trans)
    with Cons.prems False xy show ?thesis by (simp add: jsub_pos_iff)
  qed
qed

lemma sorted_array_sort:
  "\<forall>x\<in>set xs. x \<noteq> NaN \<Longrightarrow> sorted_wrt jle (array_sort (\<lambda>a b. jsub a b) xs)"
proof (induction xs)
  case Nil
  show ?case by (simp add: array_sort_def)
next
  case (Cons x xs)
  then have "sorted_wrt jle (array_sort (\<lambda>a b. jsub a b) xs)" by simp
  moreover have "\<forall>y\<in>set (array_sort (\<lambda>a b. jsub a b) xs). y \<noteq> NaN"
    using Cons.prems by (simp add: set_array_sort)
  ultimately have "sorted_wrt jle (insert_cmp (\<lambda>a b. jsub a b) x (array_sort (\<lambda>a b. jsub a b) xs))"
    using Cons.prems by (intro sorted_insert_cmp) simp_all
  then show ?case by (simp add: array_sort_def)
qed

lemma jgt0_not_NaN: "jgt a (Fin 0) \<Longrightarrow> a \<noteq> NaN"
  by (cases a) (simp_all add: jgt_def)

lemma jmul_pos: "jgt a (Fin 0) \<Longrightarrow> jgt b (Fin 0) \<Longrightarrow> jgt (jmul a b) (Fin 0)"
  by (cases a; cases b) (simp_all add: jgt_def)

lemma jadd_pos: "jgt a (Fin 0) \<Longrightarrow> jgt b (Fin 0) \<Longrightarrow> jgt (jadd a b) (Fin 0)"
  by (cases a; cases b) (simp_all add: jgt_def)

lemma jdiv2_pos: "jgt a (Fin 0) \<Longrightarrow> jgt (jdiv a (Fin 2)) (Fin 0)"
  by (cases a) (simp_all add: jgt_def)

lemma estimates_pos: "\<forall>e\<in>set (estimates ts). jgt e (Fin 0)"
  by (auto simp: estimates_def estimateOk_def intro: jmul_pos)

lemma medianSorted_pos:
  assumes "es \<noteq> []" "\<forall>e\<in>set es. jgt e (Fin 0)"
  shows "jgt (medianSorted es) (Fin 0)"
proof -
  from assms(1) have len: "0 < length es" by simp
  then have mid: "length es div 2 < length es" by simp
  show ?thesis
  proof (cases "length es mod 2 = 0")
    case True
    with len have "length es div 2 - 1 < length es" by arith
    with mid assms(2) have "jgt (es ! (length es div 2 - 1)) (Fin 0)" "jgt (es ! (length es div 2)) (Fin 0)"
      by (simp_all add: nth_mem del: One_nat_def)
    then show ?thesis using True
      by (simp add: medianSorted_def Let_def jadd_pos jdiv2_pos del: One_nat_def)
  next
    case False
    with mid assms(2) show ?thesis
      by (simp add: medianSorted_def Let_def)
  qed
qed

lemma noEstimate_Some_iff: "noEstimate (Some m) = (\<not> jgt m (Fin 0))"
  by (cases m) (auto simp: noEstimate_def jgt_def jle_def truthy_def)

lemma estimateM_anchor:
  assumes "List.find anchorOk ts = Some t" "jgt (anchorM t) (Fin 0)"
  shows "estimateM ts = (Some (anchorM t), ''Ticket-tier anchor'')"
  using assms by (simp add: estimateM_def methodA_def methodB_def noEstimate_Some_iff)

lemma anchorM_same_counts:
  assumes "jgt (anchorM t) (Fin 0)" "remaining t = total t"
  shows "anchorM t = jmul (total t) (odds t)"
  using assms
  by (cases "total t"; cases "odds t") (simp_all add: anchorM_def Let_def jgt_def split: if_splits)

lemma anchorM_pos:
  assumes "anchorOk t" "jgt (odds t) (Fin 0)" "isFinite (total t)" "isFinite (remaining t)"
  shows "jgt (anchorM t) (Fin 0)"
  using assms
  by (cases "total t"; cases "remaining t"; cases "odds t")
     (simp_all add: anchorM_def anchorOk_def Let_def jgt_def isFinite_def)

lemma estimateM_fallback:
  assumes "noEstimate (fst (methodA ts))"
  shows "estimateM ts =
           (if estimates ts = [] then methodA ts
            else (Some (medianSorted (array_sort (\<lambda>a b. jsub a b) (estimates ts))),
                  ''Median fallback''))"
  using assms by (simp add: estimateM_def methodB_def Let_def)

lemma median_estimates_pos:
  assumes "estimates ts \<noteq> []"
  shows "jgt (medianSorted (array_sort (\<lambda>a b. jsub a b) (estimates ts))) (Fin 0)"
proof (rule medianSorted_pos)
  show "array_sort (\<lambda>a b. jsub a b) (estimates ts) \<noteq> []"
    using assms length_array_sort [of "\<lambda>a b. jsub a b" "estimates ts"] by auto
  show "\<forall>e\<in>set (array_sort (\<lambda>a b. jsub a b) (estimates ts)). jgt e (Fin 0)"
    using estimates_pos [of ts] by (simp add: set_array_sort)
qed

lemma sorted_estimates:
  "sorted_wrt jle (array_sort (\<lambda>a b. jsub a b) (estimates ts))"
  using estimates_pos [of ts] by (intro sorted_array_sort) (auto dest: jgt0_not_NaN)

lemma methodA_no_anchor:
  "noEstimate (fst (methodA ts)) =
     (case List.find anchorOk ts of None \<Rightarrow> True | Some t \<Rightarrow> \<not> jgt (anchorM t) (Fin 0))"
proof (cases "List.find anchorOk ts")
  case None
  then show ?thesis by (simp add: methodA_def noEstimate_def)
next
  case (Some t)
  then show ?thesis by (simp add: methodA_def noEstimate_Some_iff)
qed

lemma computeEV_fallback:
  assumes "truthy (ticketPrice g)" "tiers g \<noteq> []" "noEstimate (fst (methodA (tiers g)))"
  shows "fst (computeEV h g opts) =
           (if estimates (tiers g) = [] then Inl err_estimate
            else (let m = medianSorted (array_sort (\<lambda>a b. jsub a b) (estimates (tiers g)));
                      rs = map (tierResult h opts m) (resolveTickets (ticketPrice g) (tiers g));
                      evG = foldl jadd (Fin 0) (map evContribution rs)
                  in Inr \<lparr> ev_ticketPrice = ticketPrice g, M = m, method = ''Median fallback'',
                       evGross = evG, evNet = jsub evG (ticketPrice g), ev_tiers = rs \<rparr>))"
proof (cases "estimates (tiers g) = []")
  case True
  with assms(3) have "estimateM (tiers g) = methodA (tiers g)"
    by (simp add: estimateM_fallback)
  with assms have "noEstimate (fst (estimateM (tiers g)))" by simp
  from computeEV_no_estimate [OF assms(1,2) this] True show ?thesis by simp
next
  case False
  with assms(3) have est: "estimateM (tiers g) =
      (Some (medianSorted (array_sort (\<lambda>a b. jsub a b) (estimates (tiers g)))), ''Median fallback'')"
    by (simp add: estimateM_fallback)
  then have "\<not> noEstimate (fst (estimateM (tiers g)))"
    using median_estimates_pos [OF False] by (simp add: noEstimate_Some_iff)
  from computeEV_result [OF assms(1,2) this] est False show ?thesis
    by (simp add: Let_def)
qed

lemma find_None_sold_out:
  assumes "\<forall>t\<in>set ts. isTicket t \<longrightarrow> \<not> jgt (remaining t) (Fin 0)"
  shows "List.find anchorOk ts = None"
  using assms by (induction ts) (auto simp: anchorOk_def)

lemma err_strings_differ: "err_precondition \<noteq> err_estimate"
  by (simp add: err_precondition_def err_estimate_def)

lemma candidates_pos_iff:
  "(\<exists>m\<in>set (candidates ts). jgt m (Fin 0)) = (\<not> noEstimate (fst (estimateM ts)))"
proof (cases "noEstimate (fst (methodA ts))")
  case True
  then have anchor: "\<forall>m\<in>set (case List.find anchorOk ts of Some t \<Rightarrow> [anchorM t] | None \<Rightarrow> []).
      \<not> jgt m (Fin 0)"
    by (simp add: methodA_no_anchor split: option.splits)
  show ?thesis
  proof (cases "estimates ts = []")
    case e: True
    with True anchor show ?thesis
      by (simp add: estimateM_fallback candidates_def)
  next
    case e: False
    with True show ?thesis
      using median_estimates_pos [OF e]
      by (simp add: estimateM_fallback candidates_def noEstimate_Some_iff)
  qed
next
  case False
  then obtain t where t: "List.find anchorOk ts = Some t" "jgt (anchorM t) (Fin 0)"
    by (auto simp: methodA_no_anchor split: option.splits)
  then have "estimateM ts = (Some (anchorM t), ''Ticket-tier anchor'')"
    by (rule estimateM_anchor)
  with t show ?thesis
    by (simp add: candidates_def noEstimate_Some_iff)
qed

lemma adjusted_of_resolveTicket:
  "adjusted_of opts (resolveTicket tp t) = (if isTicket t then tp else spec_adjust opts (value t))"
  by (simp add: adjusted_of_def resolveTicket_def spec_adjust_def spec_tax_def
      spec_zero_small_def jgt_def Let_def)

lemma adjustValue_spec:
  "adjustValue v isTkt opts = (if isTkt then v else spec_adjust opts v)"
  by (simp add: adjustValue_def spec_adjust_def spec_tax_def spec_zero_small_def jgt_def Let_def)

lemma computeEV_Inr_D:
  assumes "fst (computeEV h g opts) = Inr r"
  shows "truthy (ticketPrice g) \<and> tiers g \<noteq> [] \<and> \<not> noEstimate (fst (estimateM (tiers g)))"
proof -
  have pre: "truthy (ticketPrice g) \<and> tiers g \<noteq> []"
  proof (rule ccontr)
    assume "\<not> (truthy (ticketPrice g) \<and> tiers g \<noteq> [])"
    then have "\<not> truthy (ticketPrice g) \<or> tiers g = []" by simp
    from computeEV_precondition [OF this, of h opts] assms show False by simp
  qed
  have "\<not> noEstimate (fst (estimateM (tiers g)))"
  proof
    assume "noEstimate (fst (estimateM (tiers g)))"
    with pre computeEV_no_estimate [of g h opts] assms show False by simp
  qed
  with pre show ?thesis by simp
qed

lemma computeEV_Inr_eq:
  assumes "fst (computeEV h g opts) = Inr r"
  shows "r = (let m = the (fst (estimateM (tiers g)));
                  rs = map (tierResult h opts m) (resolveTickets (ticketPrice g) (tiers g));
                  evG = foldl jadd (Fin 0) (map evContribution rs)
              in \<lparr> ev_ticketPrice = ticketPrice g, M = m, method = snd (estimateM (tiers g)),
                   evGross = evG, evNet = jsub evG (ticketPrice g), ev_tiers = rs \<rparr>)"
proof -
  from computeEV_Inr_D [OF assms] have
    "truthy (ticketPrice g)" "tiers g \<noteq> []" "\<not> noEstimate (fst (estimateM (tiers g)))"
    by simp_all
  from computeEV_result [OF this, of h opts] assms show ?thesis
    by (simp add: Let_def)
qed

lemma jadd_NaN_right: "jadd a NaN = NaN"
  by (cases a) simp_all

lemma jmul_NaN_right: "jmul a NaN = NaN"
  by (cases a) simp_all

lemma foldl_jadd_NaN: "foldl jadd NaN xs = NaN"
  by (induction xs) simp_all

lemma foldl_jadd_has_NaN: "NaN \<in> set xs \<Longrightarrow> foldl jadd a xs = NaN"
proof (induction xs arbitrary: a)
  case Nil
  then show ?case by simp
next
  case (Cons x xs)
  show ?case
  proof (cases "x = NaN")
    case True
    then show ?thesis by (simp add: jadd_NaN_right foldl_jadd_NaN)
  next
    case False
    with Cons show ?thesis by simp
  qed
qed

lemma spec_adjust_NaN: "spec_adjust opts NaN = NaN"
  by (simp add: spec_adjust_def spec_tax_def spec_zero_small_def)

lemma tierResult_resolved:
  "adjustedValue (tierResult h opts m (resolveTicket tp t)) =
     (if isTicket t then tp else spec_adjust opts (value t))"
  "evContribution (tierResult h opts m (resolveTicket tp t)) =
     jmul (jdiv (remaining t) m) (if isTicket t then tp else spec_adjust opts (value t))"
  "tr_prize (tierResult h opts m (resolveTicket tp t)) = prize t"
  by (simp_all add: tierResult_def Let_def adjusted_of_resolveTicket)
     (simp_all add: resolveTicket_def)

lemma resolveTicket_idem: "resolveTicket tp (resolveTicket tp t) = resolveTicket tp t"
  by (simp add: resolveTicket_def)

lemma resolveTickets_idem:
  "resolveTickets tp (resolveTickets tp ts) = resolveTickets tp ts"
  by (simp add: resolveTickets_map resolveTicket_idem)

lemma computeEV_call_throws:
  "(computeEV_call h game opts = Inl TypeError) =
     (opts = None \<or> game = None
      \<or> (truthy (jg_ticketPrice (the game))
          \<and> (jg_tiers (the game) = None \<or> None \<in> set (the (jg_tiers (the game))))))"
  by (auto simp: computeEV_call_def list_ex_iff split: option.splits)

lemma computeEV_call_ok:
  "jg_tiers jg = Some (map Some ts) \<Longrightarrow>
     computeEV_call h (Some jg) (Some os) = Inr (fst (computeEV h (as_game jg ts) os))"
  by (simp add: computeEV_call_def computeEV_precondition as_game_def list_ex_iff o_def)

lemma jadd_zero_left: "jadd (Fin 0) a = a"
  by (cases a) simp_all

lemma jeq_zero: "jeq a (Fin 0) = (a = Fin 0)"
  by (auto simp: jeq_def)

lemma validTier_spec: "validTier h = spec_valid h"
  by (rule ext) (simp add: validTier_def spec_valid_def jgt_def isNaN_def)

lemma claimedLoop_foldl:
  "claimedLoop h opts ts acc =
     foldl (\<lambda>a b. jadd a b) acc
       (map (\<lambda>t. jmul (adjustValue (rawValue t) (rs_isTicket t) opts) (val_num h (rs_total t))) ts)"
  by (induction ts arbitrary: acc) (simp_all add: Let_def)

lemma calcLoop_foldl:
  "calcLoop h opts ts acc =
     foldl (\<lambda>a b. jadd a b) acc
       (map (\<lambda>t. jmul (adjustValue (rawValue t) (rs_isTicket t) opts)
                    (val_num h (rs_remaining t))) ts)"
  by (induction ts arbitrary: acc) (simp_all add: Let_def)

lemma M0_of_spec: "M0_of h valid = spec_M0 h valid"
  by (simp add: M0_of_def spec_M0_def spec_mean_def spec_sum_def Let_def)

lemma js_plus_num: "\<not> is_str v \<Longrightarrow> js_plus h (JNum a) v = JNum (jadd a (val_num h v))"
  by (simp add: js_plus_def is_str_def val_num_def)

lemma foldl_js_plus_num:
  assumes "\<forall>t\<in>set ts. \<not> is_str (f t)"
  shows "foldl (\<lambda>s t. js_plus h s (f t)) (JNum a) ts
           = JNum (foldl (\<lambda>a b. jadd a b) a (map (\<lambda>t. val_num h (f t)) ts))"
  using assms by (induction ts arbitrary: a) (simp_all add: js_plus_num)

lemma Tsum_of_spec:
  "\<forall>t\<in>set valid. \<not> is_str (rs_total t) \<Longrightarrow> Tsum_of h valid = JNum (spec_Tsum h valid)"
  by (simp add: Tsum_of_def spec_Tsum_def spec_sum_def foldl_js_plus_num)

lemma Rsum_of_spec:
  "\<forall>t\<in>set valid. \<not> is_str (rs_remaining t) \<Longrightarrow> Rsum_of h valid = JNum (spec_Rsum h valid)"
  by (simp add: Rsum_of_def spec_Rsum_def spec_sum_def foldl_js_plus_num)

lemma resolveTier_numeric:
  assumes "numeric_counts t"
  shows "\<not> is_str (rs_remaining (resolveTier h pr t))" "\<not> is_str (rs_total (resolveTier h pr t))"
  using assms
  by (auto simp: numeric_counts_def resolveTier_def Let_def val_or_def is_str_def
      split: jsval.splits)

lemma resolveAll_Inr:
  "resolveAll h pr ts = Inr rs \<Longrightarrow> None \<notin> set ts \<and> rs = map (\<lambda>t. resolveTier h pr (the t)) ts"
  by (induction ts arbitrary: rs) (auto split: option.splits sum.splits)


lemma resolveAll_null:
  "None \<in> set ts \<Longrightarrow> resolveAll h pr ts = Inl TypeError"
  by (induction ts) (auto split: option.splits sum.splits)

lemma overviewOf_Some_D:
  assumes "overviewOf h gm pr valid opts = Some r"
  shows "valid \<noteq> [] \<and> \<not> val_is_zero (Tsum_of h valid) \<and> \<not> val_is_zero (Rsum_of h valid)
         \<and> M0_of h valid \<noteq> Fin 0
         \<and> r = (let M0 = M0_of h valid;
                     Mhat = jmul M0 (jdiv (val_num h (Rsum_of h valid)) (val_num h (Tsum_of h valid)));
                     claimedNet = jsub (jdiv (claimedLoop h opts valid (Fin 0)) M0) pr;
                     calcNet = jsub (jdiv (calcLoop h opts valid (Fin 0)) Mhat) pr
                 in \<lparr> o_name = g_name gm,
                      o_number = str_or (g_number gm) [],
                      o_price = pr,
                      claimedOddsText = str_or (g_claimedOdds gm) em_dash,
                      claimedOddsVal = parseOdds h (opt_jsval (g_claimedOdds gm)),
                      calcOddsVal = jdiv Mhat (val_num h (Rsum_of h valid)),
                      claimedEV = claimedNet,
                      calcEV = calcNet,
                      deltaPercent =
                        (if claimedNet \<noteq> Fin 0
                         then jmul (jdiv (jsub calcNet claimedNet) (jabs claimedNet)) (Fin 100)
                         else Fin 0) \<rparr>)"
  using assms
  by (auto simp: overviewOf_def Let_def jeq_zero split: if_splits)

lemma computeOverview_Some_D:
  assumes "computeOverview h game opts = Inr (Some r)"
  obtains gm pr ts where "game = Some gm" "price gm = Some pr" "truthy pr"
    "g_tiers gm = TiersArray ts" "ts \<noteq> []" "None \<notin> set ts"
    "overviewOf h gm pr (filter (validTier h) (map (\<lambda>t. resolveTier h pr (the t)) ts)) opts
       = Some r"
  using assms
  by (auto simp: computeOverview_def split: option.splits if_splits tiers_val.splits sum.splits
      dest!: resolveAll_Inr)

lemma overview_a: "computeOverview demo_host (Some ov_game_a) plain_options = Inr (Some ov_result_a)"
  by code_simp

lemma overview_b: "computeOverview demo_host (Some ov_game_b) plain_options = Inr (Some ov_result_b)"
  by code_simp

lemma well_formed_D:
  assumes "well_formed (Some gm)" "g_tiers gm = TiersArray ts"
  shows "None \<notin> set ts" "\<forall>t\<in>set ts. numeric_counts (the t)"
  using assms by (auto simp: well_formed_def list_all_iff split: option.splits)






















section \<open>The claims\<close>

subsection \<open>C1\<close>

text \<open>
  C1 (as amended). When the ticket price is present, \<open>t\<close> is the first tier of the
  game that is a ticket tier with \<open>total > 0\<close>, \<open>remaining > 0\<close> and numeric odds,
  and the pool \<open>(total * odds) * (remaining / total)\<close> it implies is positive, then
  \<open>computeEV\<close> returns a result whose method is the ticket-tier anchor and whose
  \<open>M\<close> is exactly that pool; when \<open>remaining = total\<close>, \<open>M = total * odds\<close>.
  (The pool is positive whenever the odds are positive and the counts are finite, see
  \<open>anchorM_pos\<close>.)
\<close>

theorem C1_ticket_anchor:
  assumes "truthy (ticketPrice g)"
    and "List.find anchorOk (tiers g) = Some t"
    and "jgt (anchorM t) (Fin 0)"
  shows "case fst (computeEV h g opts) of
           Inl e \<Rightarrow> False
         | Inr r \<Rightarrow> method r = ''Ticket-tier anchor''
                    \<and> M r = jmul (jmul (total t) (odds t)) (jdiv (remaining t) (total t))
                    \<and> (remaining t = total t \<longrightarrow> M r = jmul (total t) (odds t))"
proof -
  from assms(2) have ne: "tiers g \<noteq> []" by auto
  have est: "estimateM (tiers g) = (Some (anchorM t), ''Ticket-tier anchor'')"
    using assms(2,3) by (rule estimateM_anchor)
  then have ok: "\<not> noEstimate (fst (estimateM (tiers g)))"
    using assms(3) by (simp add: noEstimate_Some_iff)
  have "anchorM t = jmul (jmul (total t) (odds t)) (jdiv (remaining t) (total t))"
    by (simp add: anchorM_def Let_def)
  moreover have "remaining t = total t \<longrightarrow> anchorM t = jmul (total t) (odds t)"
    using assms(3) by (simp add: anchorM_same_counts)
  ultimately show ?thesis
    using computeEV_result [OF assms(1) ne ok, of h opts] est
    by (simp add: Let_def)
qed

theorem C1_ticket_anchor_witness:
  "truthy (ticketPrice game_anchor)
   \<and> List.find anchorOk (tiers game_anchor) = Some ticket_12
   \<and> jgt (anchorM ticket_12) (Fin 0)
   \<and> M (projr (fst (computeEV demo_host game_anchor plain_options))) = Fin 360
   \<and> method (projr (fst (computeEV demo_host game_anchor plain_options)))
       = ''Ticket-tier anchor''"
proof -
  have a: "truthy (ticketPrice game_anchor)"
    by (simp add: game_anchor_def truthy_def)
  have b: "List.find anchorOk (tiers game_anchor) = Some ticket_12"
    by (simp add: game_anchor_def anchorOk_def cash_100_def ticket_12_def jgt_def isNaN_def)
  have c: "jgt (anchorM ticket_12) (Fin 0)"
    by (simp add: anchorM_def ticket_12_def jgt_def Let_def)
  have d: "jmul (jmul (total ticket_12) (odds ticket_12))
             (jdiv (remaining ticket_12) (total ticket_12)) = Fin 360"
    by (simp add: ticket_12_def)
  show ?thesis
    using C1_ticket_anchor [OF a b c, of demo_host plain_options] a b c d
    by (auto split: sum.splits)
qed

text \<open>
  The claim as first stated fails when the anchor tier has odds \<open>0\<close>: the tier
  qualifies, its pool is \<open>0\<close>, and the guard \<open>!M || M <= 0\<close> hands over to the
  median fallback.
\<close>

theorem C1_counterexample:
  "ticket_zero_odds \<in> set (tiers game_zero_odds)
   \<and> isTicket ticket_zero_odds
   \<and> jgt (total ticket_zero_odds) (Fin 0)
   \<and> jgt (remaining ticket_zero_odds) (Fin 0)
   \<and> \<not> isNaN (odds ticket_zero_odds)
   \<and> jmul (jmul (total ticket_zero_odds) (odds ticket_zero_odds))
          (jdiv (remaining ticket_zero_odds) (total ticket_zero_odds)) = Fin 0
   \<and> \<not> isl (fst (computeEV demo_host game_zero_odds plain_options))
   \<and> method (projr (fst (computeEV demo_host game_zero_odds plain_options)))
       = ''Median fallback''
   \<and> M (projr (fst (computeEV demo_host game_zero_odds plain_options))) = Fin 20"
  by code_simp

subsection \<open>C2\<close>

text \<open>
  C2. In every result of \<open>computeEV\<close> the tier results stand in the order of the
  game's tiers, and for each tier: a ticket tier's value and adjusted value are the ticket
  price, untouched by both adjustments; a monetary tier's adjusted value is its value put
  through stage (a) and then stage (b) of the pipeline; the probability is
  \<open>remaining / M\<close> and the contribution is \<open>(remaining / M) * adjustedValue\<close>. Gross
  EV is the left-to-right sum of the contributions and net EV is gross EV minus the ticket
  price. \<open>adjustValue\<close> of the multi-game engine runs the same two stages in the same
  order and skips them for a ticket tier.
\<close>

theorem C2_adjustment_pipeline:
  assumes "fst (computeEV h g opts) = Inr r"
  shows "length (ev_tiers r) = length (tiers g)
         \<and> (\<forall>i<length (tiers g).
              adjustedValue (ev_tiers r ! i) =
                (if isTicket (tiers g ! i) then ticketPrice g
                 else spec_adjust opts (value (tiers g ! i)))
              \<and> tr_value (ev_tiers r ! i) =
                (if isTicket (tiers g ! i) then ticketPrice g else value (tiers g ! i))
              \<and> probability (ev_tiers r ! i) = jdiv (remaining (tiers g ! i)) (M r)
              \<and> evContribution (ev_tiers r ! i) =
                  jmul (jdiv (remaining (tiers g ! i)) (M r)) (adjustedValue (ev_tiers r ! i)))
         \<and> evGross r = foldl jadd (Fin 0) (map evContribution (ev_tiers r))
         \<and> evNet r = jsub (evGross r) (ticketPrice g)
         \<and> adjustValue v isTkt opts' = (if isTkt then v else spec_adjust opts' v)"
proof -
  let ?m = "the (fst (estimateM (tiers g)))"
  let ?rs = "map (tierResult h opts ?m) (resolveTickets (ticketPrice g) (tiers g))"
  from computeEV_Inr_eq [OF assms] have r:
    "ev_tiers r = ?rs" "M r = ?m"
    "evGross r = foldl jadd (Fin 0) (map evContribution ?rs)"
    "evNet r = jsub (foldl jadd (Fin 0) (map evContribution ?rs)) (ticketPrice g)"
    by (simp_all add: Let_def)
  have len: "length (ev_tiers r) = length (tiers g)"
    by (simp add: r resolveTickets_map)
  have tiers: "\<forall>i<length (tiers g).
              adjustedValue (ev_tiers r ! i) =
                (if isTicket (tiers g ! i) then ticketPrice g
                 else spec_adjust opts (value (tiers g ! i)))
              \<and> tr_value (ev_tiers r ! i) =
                (if isTicket (tiers g ! i) then ticketPrice g else value (tiers g ! i))
              \<and> probability (ev_tiers r ! i) = jdiv (remaining (tiers g ! i)) (M r)
              \<and> evContribution (ev_tiers r ! i) =
                  jmul (jdiv (remaining (tiers g ! i)) (M r)) (adjustedValue (ev_tiers r ! i))"
  proof (intro allI impI)
    fix i assume i: "i < length (tiers g)"
    have "ev_tiers r ! i = tierResult h opts ?m (resolveTicket (ticketPrice g) (tiers g ! i))"
      using i by (simp add: r resolveTickets_map)
    moreover have "remaining (resolveTicket (ticketPrice g) (tiers g ! i)) = remaining (tiers g ! i)"
      "value (resolveTicket (ticketPrice g) (tiers g ! i)) =
         (if isTicket (tiers g ! i) then ticketPrice g else value (tiers g ! i))"
      by (simp_all add: resolveTicket_def)
    ultimately show "adjustedValue (ev_tiers r ! i) =
                (if isTicket (tiers g ! i) then ticketPrice g
                 else spec_adjust opts (value (tiers g ! i)))
              \<and> tr_value (ev_tiers r ! i) =
                (if isTicket (tiers g ! i) then ticketPrice g else value (tiers g ! i))
              \<and> probability (ev_tiers r ! i) = jdiv (remaining (tiers g ! i)) (M r)
              \<and> evContribution (ev_tiers r ! i) =
                  jmul (jdiv (remaining (tiers g ! i)) (M r)) (adjustedValue (ev_tiers r ! i))"
      by (simp add: tierResult_def Let_def adjusted_of_resolveTicket r(2))
  qed
  from len tiers r(3,4) show ?thesis
    by (simp add: r(1) adjustValue_spec)
qed

theorem C2_adjustment_pipeline_witness:
  "fst (computeEV demo_host game_mixed tax_options) =
     Inr \<lparr> ev_ticketPrice = Fin 2, M = Fin 360, method = ''Ticket-tier anchor'',
           evGross = Fin (13 / 3), evNet = Fin (7 / 3),
           ev_tiers = ev_tiers (projr (fst (computeEV demo_host game_mixed tax_options))) \<rparr>
   \<and> length (ev_tiers (projr (fst (computeEV demo_host game_mixed tax_options)))) = 3
   \<and> adjustedValue (ev_tiers (projr (fst (computeEV demo_host game_mixed tax_options))) ! 0)
       = Fin 750
   \<and> adjustedValue (ev_tiers (projr (fst (computeEV demo_host game_mixed tax_options))) ! 1)
       = Fin 0
   \<and> adjustedValue (ev_tiers (projr (fst (computeEV demo_host game_mixed tax_options))) ! 2)
       = Fin 2
   \<and> spec_adjust tax_options (Fin 1000) = Fin 750
   \<and> spec_adjust tax_options (Fin 100) = Fin 0
   \<and> adjustValue (Fin 1000) False tax_options = Fin 750"
proof -
  have a: "fst (computeEV demo_host game_mixed tax_options) =
     Inr \<lparr> ev_ticketPrice = Fin 2, M = Fin 360, method = ''Ticket-tier anchor'',
           evGross = Fin (13 / 3), evNet = Fin (7 / 3),
           ev_tiers = ev_tiers (projr (fst (computeEV demo_host game_mixed tax_options))) \<rparr>"
    by code_simp
  have b: "spec_adjust tax_options (Fin 1000) = Fin 750" "spec_adjust tax_options (Fin 100) = Fin 0"
    by (simp_all add: spec_adjust_def spec_tax_def spec_zero_small_def tax_options_def jsub_def)
  have c: "tiers game_mixed = [cash_1000, cash_100, ticket_12]" "ticketPrice game_mixed = Fin 2"
    by (simp_all add: game_mixed_def)
  have d: "value cash_1000 = Fin 1000" "value cash_100 = Fin 100" "\<not> isTicket cash_1000"
    "\<not> isTicket cash_100" "isTicket ticket_12"
    by (simp_all add: cash_1000_def cash_100_def ticket_12_def)
  from C2_adjustment_pipeline [OF a, of "Fin 1000" False tax_options]
  have e: "length (ev_tiers (projr (fst (computeEV demo_host game_mixed tax_options)))) = 3"
    "adjustedValue (ev_tiers (projr (fst (computeEV demo_host game_mixed tax_options))) ! 0) = Fin 750"
    "adjustedValue (ev_tiers (projr (fst (computeEV demo_host game_mixed tax_options))) ! 1) = Fin 0"
    "adjustedValue (ev_tiers (projr (fst (computeEV demo_host game_mixed tax_options))) ! 2) = Fin 2"
    "adjustValue (Fin 1000) False tax_options = Fin 750"
    by (simp_all add: c d b)
  from a b e show ?thesis by simp
qed

subsection \<open>C3\<close>

text \<open>
  C3 (as amended). For every game for which \<open>computeOverview\<close> returns a result and
  whose tier counts are numbers (or missing), with the valid tiers being the resolved
  tiers of \<open>total > 0\<close> and positive numeric odds: the \<open>M0\<close> of the code is the mean
  of \<open>odds * total\<close> over the valid tiers, its \<open>Tsum\<close> and \<open>Rsum\<close> are the sums of
  the total and of the remaining counts; with
  \<open>Mhat = M0 * (sum(remaining) / sum(total))\<close> the calculated odds are
  \<open>Mhat / sum(remaining)\<close>; claimed net EV is the sum of \<open>adjustedValue * total\<close>
  divided by \<open>M0\<close>, minus the price, and calculated net EV is the sum of
  \<open>adjustedValue * remaining\<close> divided by \<open>Mhat\<close>, minus the price. All sums run
  from \<open>0\<close> in the order of the tiers.
\<close>

theorem C3_mean_ratio_pool:
  assumes "computeOverview h game opts = Inr (Some r)"
    and "well_formed game"
  shows "let gm = the game;
             pr = the (price gm);
             valid = filter (spec_valid h) (map (resolveTier h pr) (tiers_of gm));
             M0 = spec_M0 h valid;
             Rsum = spec_Rsum h valid;
             Tsum = spec_Tsum h valid;
             Mhat = jmul M0 (jdiv Rsum Tsum)
         in M0_of h valid = M0
            \<and> Tsum_of h valid = JNum Tsum
            \<and> Rsum_of h valid = JNum Rsum
            \<and> calcOddsVal r = jdiv Mhat Rsum
            \<and> claimedEV r = jsub (spec_claimedGross h opts valid) pr
            \<and> calcEV r = jsub (spec_calcGross h opts valid) pr
            \<and> o_price r = pr"
proof -
  from assms(1) obtain gm pr ts where
    g: "game = Some gm" "price gm = Some pr" "g_tiers gm = TiersArray ts" and
    ov: "overviewOf h gm pr (filter (validTier h) (map (\<lambda>t. resolveTier h pr (the t)) ts)) opts
       = Some r"
    by (rule computeOverview_Some_D)
  let ?valid = "filter (spec_valid h) (map (resolveTier h pr) (tiers_of gm))"
  have v: "filter (validTier h) (map (\<lambda>t. resolveTier h pr (the t)) ts) = ?valid"
    by (simp add: validTier_spec tiers_of_def g o_def)
  have num: "\<forall>t\<in>set ts. numeric_counts (the t)"
    using well_formed_D(2) [of gm ts] assms(2) g by simp
  have nt: "\<forall>t\<in>set ?valid. \<not> is_str (rs_total t)"
    and nr: "\<forall>t\<in>set ?valid. \<not> is_str (rs_remaining t)"
    using num by (auto simp: tiers_of_def g resolveTier_numeric)
  have T: "Tsum_of h ?valid = JNum (spec_Tsum h ?valid)"
    using nt by (rule Tsum_of_spec)
  have R: "Rsum_of h ?valid = JNum (spec_Rsum h ?valid)"
    using nr by (rule Rsum_of_spec)
  have val: "val_num h (JNum (spec_Tsum h ?valid)) = spec_Tsum h ?valid"
    "val_num h (JNum (spec_Rsum h ?valid)) = spec_Rsum h ?valid"
    by (simp_all add: val_num_def)
  from overviewOf_Some_D [OF ov] have
    r: "r = (let M0 = M0_of h ?valid;
                 Mhat = jmul M0 (jdiv (spec_Rsum h ?valid) (spec_Tsum h ?valid));
                 claimedNet = jsub (jdiv (claimedLoop h opts ?valid (Fin 0)) M0) pr;
                 calcNet = jsub (jdiv (calcLoop h opts ?valid (Fin 0)) Mhat) pr
             in \<lparr> o_name = g_name gm,
                  o_number = str_or (g_number gm) [],
                  o_price = pr,
                  claimedOddsText = str_or (g_claimedOdds gm) em_dash,
                  claimedOddsVal = parseOdds h (opt_jsval (g_claimedOdds gm)),
                  calcOddsVal = jdiv Mhat (spec_Rsum h ?valid),
                  claimedEV = claimedNet,
                  calcEV = calcNet,
                  deltaPercent =
                    (if claimedNet \<noteq> Fin 0
                     then jmul (jdiv (jsub calcNet claimedNet) (jabs claimedNet)) (Fin 100)
                     else Fin 0) \<rparr>)"
    unfolding v T R val by simp
  show ?thesis
    unfolding r
    by (simp add: g Let_def M0_of_spec T R claimedLoop_foldl calcLoop_foldl
        spec_claimedGross_def spec_calcGross_def spec_Mhat_def spec_sum_def)
qed

theorem C3_mean_ratio_pool_witness:
  "computeOverview demo_host (Some ov_game_a) plain_options = Inr (Some ov_result_a)
   \<and> well_formed (Some ov_game_a)
   \<and> spec_M0 demo_host (spec_validTiers demo_host ov_game_a) = Fin 40
   \<and> spec_Tsum demo_host (spec_validTiers demo_host ov_game_a) = Fin 30
   \<and> spec_Rsum demo_host (spec_validTiers demo_host ov_game_a) = Fin 14
   \<and> calcOddsVal ov_result_a = Fin (4 / 3)
   \<and> jsub (spec_claimedGross demo_host plain_options (spec_validTiers demo_host ov_game_a))
        (Fin 2) = Fin 24
   \<and> jsub (spec_calcGross demo_host plain_options (spec_validTiers demo_host ov_game_a))
        (Fin 2) = Fin (41 / 2)"
proof -
  have w: "well_formed (Some ov_game_a)"
    by code_simp
  have g: "price ov_game_a = Some (Fin 2)" "price_of ov_game_a = Fin 2"
    by (simp_all add: ov_game_a_def ov_game_of_def price_of_def)
  have m: "spec_M0 demo_host (spec_validTiers demo_host ov_game_a) = Fin 40"
    "spec_Tsum demo_host (spec_validTiers demo_host ov_game_a) = Fin 30"
    "spec_Rsum demo_host (spec_validTiers demo_host ov_game_a) = Fin 14"
    by code_simp+
  have r: "claimedEV ov_result_a = Fin 24" "calcEV ov_result_a = Fin (41 / 2)"
    "calcOddsVal ov_result_a = Fin (4 / 3)"
    by (simp_all add: ov_result_a_def)
  show ?thesis
    using C3_mean_ratio_pool [OF overview_a w] overview_a w m
    by (simp add: g r Let_def spec_validTiers_def)
qed

text \<open>
  The claim as first stated fails on counts given as strings, which the code never
  converts: \<open>s + t.total\<close> then concatenates. With totals \<open>"10"\<close>, \<open>"5"\<close> and
  remaining \<open>"5"\<close>, \<open>"1"\<close> the code's sums are the strings \<open>"0105"\<close> and
  \<open>"051"\<close>, read back as 105 and 51, and the calculated odds come out as
  \<open>8/21\<close>, where \<open>Mhat / sum(remaining)\<close> is \<open>8/3\<close>.
\<close>

theorem C3_counterexample:
  "\<not> isl (computeOverview demo_host (Some ov_game_str) plain_options)
   \<and> Tsum_of demo_host (spec_validTiers demo_host ov_game_str) = JStr ''0105''
   \<and> Rsum_of demo_host (spec_validTiers demo_host ov_game_str) = JStr ''051''
   \<and> spec_Tsum demo_host (spec_validTiers demo_host ov_game_str) = Fin 15
   \<and> spec_Rsum demo_host (spec_validTiers demo_host ov_game_str) = Fin 6
   \<and> jdiv (spec_Mhat demo_host (spec_validTiers demo_host ov_game_str))
        (spec_Rsum demo_host (spec_validTiers demo_host ov_game_str)) = Fin (8 / 3)
   \<and> calcOddsVal (the (projr (computeOverview demo_host (Some ov_game_str) plain_options)))
       = Fin (8 / 21)"
  by code_simp

subsection \<open>C4\<close>

text \<open>
  C4 (as amended). For a game with a ticket price and at least one tier, when no
  ticket-tier anchor is usable or the anchor's pool is rejected by the guard
  \<open>!M || M <= 0\<close> (so in particular when it is \<open>\<le> 0\<close>): if at least one tier has
  \<open>remaining > 0\<close> and numeric positive odds, \<open>computeEV\<close> takes
  \<open>remaining * odds\<close> over these tiers, sorts a rearrangement of exactly these values
  in ascending order, and returns as \<open>M\<close> the middle value, or the mean of the two
  middle values when their number is even; if no tier qualifies there is no median and
  the call ends in the estimation failure.
\<close>

theorem C4_median_fallback:
  assumes "truthy (ticketPrice g)" and "tiers g \<noteq> []"
    and "case List.find anchorOk (tiers g) of
           None \<Rightarrow> True
         | Some t \<Rightarrow> jle (anchorM t) (Fin 0) \<or> \<not> truthy (anchorM t)"
  shows "let es = estimates (tiers g);
             s = array_sort (\<lambda>a b. jsub a b) es;
             n = length s
         in if es = [] then fst (computeEV h g opts) = Inl err_estimate
            else mset s = mset es \<and> sorted_wrt jle s
                 \<and> (case fst (computeEV h g opts) of
                       Inl e \<Rightarrow> False
                     | Inr r \<Rightarrow>
                         method r = ''Median fallback''
                         \<and> M r = (if even n
                                  then jdiv (jadd (s ! (n div 2 - 1)) (s ! (n div 2))) (Fin 2)
                                  else s ! (n div 2)))"
proof -
  have "noEstimate (fst (methodA (tiers g)))"
    using assms(3) by (auto simp: methodA_def noEstimate_def split: option.splits)
  from computeEV_fallback [OF assms(1,2) this, of h opts] show ?thesis
    by (auto simp: Let_def mset_array_sort sorted_estimates medianSorted_def even_iff_mod_2_eq_zero)
qed

theorem C4_median_fallback_witness:
  "truthy (ticketPrice game_four_cash) \<and> tiers game_four_cash \<noteq> []
   \<and> List.find anchorOk (tiers game_four_cash) = None
   \<and> estimates (tiers game_four_cash) = [Fin 20, Fin 100, Fin 8, Fin 30]
   \<and> array_sort (\<lambda>a b. jsub a b) (estimates (tiers game_four_cash))
       = [Fin 8, Fin 20, Fin 30, Fin 100]
   \<and> method (projr (fst (computeEV demo_host game_four_cash plain_options)))
       = ''Median fallback''
   \<and> M (projr (fst (computeEV demo_host game_four_cash plain_options))) = Fin 25"
proof -
  have a: "truthy (ticketPrice game_four_cash)" "tiers game_four_cash \<noteq> []"
    by (simp_all add: game_four_cash_def truthy_def)
  have b: "List.find anchorOk (tiers game_four_cash) = None"
    by (simp add: game_four_cash_def anchorOk_def cash_100_def cash_1000_def cash_8_def
        cash_30_def)
  have d: "estimates (tiers game_four_cash) = [Fin 20, Fin 100, Fin 8, Fin 30]"
    by code_simp
  have e: "array_sort (\<lambda>a b. jsub a b) [Fin 20, Fin 100, Fin 8, Fin 30]
             = [Fin 8, Fin 20, Fin 30, Fin 100]"
    by (simp add: array_sort_def jgt_def jsub_def)
  from b have f: "case List.find anchorOk (tiers game_four_cash) of
           None \<Rightarrow> True
         | Some t \<Rightarrow> jle (anchorM t) (Fin 0) \<or> \<not> truthy (anchorM t)"
    by simp
  show ?thesis
    using C4_median_fallback [OF a f, of demo_host plain_options] a b d e
    by (auto simp: Let_def split: sum.splits)
qed

text \<open>
  The claim as first stated promises a median for every such game. A game whose only tier
  has no numeric odds has no usable anchor and no tier to estimate from: there is no
  median, and \<open>computeEV\<close> returns the estimation failure.
\<close>

theorem C4_counterexample:
  "truthy (ticketPrice game_no_odds) \<and> tiers game_no_odds \<noteq> []
   \<and> List.find anchorOk (tiers game_no_odds) = None
   \<and> estimates (tiers game_no_odds) = []
   \<and> fst (computeEV demo_host game_no_odds plain_options) = Inl err_estimate"
  by code_simp

subsection \<open>C5\<close>

text \<open>
  C5 (as amended). When every ticket tier of the game has \<open>remaining = 0\<close>, the
  anchor strategy is not applied at all: \<open>find\<close> selects no tier and \<open>M\<close> stays
  unset instead of becoming \<open>0\<close>. The median fallback then decides: with at least one
  tier of \<open>remaining > 0\<close> and positive numeric odds the game gets a positive \<open>M\<close>
  and a result; estimation fails only when there is no such tier.
\<close>

theorem C5_ticket_tier_sold_out:
  assumes "truthy (ticketPrice g)" and "tiers g \<noteq> []"
    and "\<forall>t\<in>set (tiers g). isTicket t \<longrightarrow> remaining t = Fin 0"
  shows "List.find anchorOk (tiers g) = None
         \<and> methodA (tiers g) = (None, [])
         \<and> (if estimates (tiers g) = [] then fst (computeEV h g opts) = Inl err_estimate
            else (case fst (computeEV h g opts) of
                    Inl e \<Rightarrow> False
                  | Inr r \<Rightarrow>
                      method r = ''Median fallback''
                      \<and> M r = medianSorted (array_sort (\<lambda>a b. jsub a b) (estimates (tiers g)))
                      \<and> jgt (M r) (Fin 0)))"
proof -
  have none: "List.find anchorOk (tiers g) = None"
    using assms(3) by (intro find_None_sold_out) (auto simp: jgt_def)
  then have mA: "methodA (tiers g) = (None, [])" by (simp add: methodA_def)
  then have "noEstimate (fst (methodA (tiers g)))" by (simp add: noEstimate_def)
  from computeEV_fallback [OF assms(1,2) this, of h opts] none mA show ?thesis
    by (auto simp: Let_def median_estimates_pos)
qed

theorem C5_ticket_tier_sold_out_witness:
  "truthy (ticketPrice game_sold_out) \<and> tiers game_sold_out \<noteq> []
   \<and> isTicket ticket_sold_out \<and> remaining ticket_sold_out = Fin 0
   \<and> \<not> isTicket cash_1000
   \<and> estimates (tiers game_sold_out) = [Fin 100]
   \<and> methodA (tiers game_sold_out) = (None, [])
   \<and> M (projr (fst (computeEV demo_host game_sold_out plain_options))) = Fin 100"
proof -
  have a: "truthy (ticketPrice game_sold_out)" "tiers game_sold_out \<noteq> []"
    by (simp_all add: game_sold_out_def truthy_def)
  have b: "\<forall>t\<in>set (tiers game_sold_out). isTicket t \<longrightarrow> remaining t = Fin 0"
    by (simp add: game_sold_out_def ticket_sold_out_def cash_1000_def)
  have c: "isTicket ticket_sold_out" "remaining ticket_sold_out = Fin 0" "\<not> isTicket cash_1000"
    by (simp_all add: ticket_sold_out_def cash_1000_def)
  have d: "estimates (tiers game_sold_out) = [Fin 100]"
    by (simp add: estimates_def estimateOk_def game_sold_out_def ticket_sold_out_def
        cash_1000_def jgt_def isNaN_def)
  have e: "medianSorted (array_sort (\<lambda>a b. jsub a b) [Fin 100]) = Fin 100"
    by (simp add: array_sort_def medianSorted_def)
  show ?thesis
    using C5_ticket_tier_sold_out [OF a b, of demo_host plain_options] a c d e
    by (auto split: sum.splits)
qed

text \<open>
  The claim as first stated fails: a sold-out ticket tier beside a cash tier that still
  has prizes gives \<open>M = 100\<close> by the median fallback, and an EV is computed.
\<close>

theorem C5_counterexample:
  "ticket_sold_out \<in> set (tiers game_sold_out)
   \<and> isTicket ticket_sold_out
   \<and> remaining ticket_sold_out = Fin 0
   \<and> \<not> isl (fst (computeEV demo_host game_sold_out plain_options))
   \<and> M (projr (fst (computeEV demo_host game_sold_out plain_options))) = Fin 100
   \<and> evGross (projr (fst (computeEV demo_host game_sold_out plain_options))) = Fin 20
   \<and> evNet (projr (fst (computeEV demo_host game_sold_out plain_options))) = Fin 18"
  by code_simp

subsection \<open>C6\<close>

text \<open>
  C6. In every result of \<open>computeOverview\<close> the delta percent is
  \<open>((calcEV - claimedEV) / |claimedEV|) * 100\<close> when the claimed net EV is not \<open>0\<close>
  and is \<open>0\<close> when it is; so with a claimed net EV of exactly \<open>0\<close> the delta percent
  is exactly \<open>0\<close>, neither infinite nor \<open>NaN\<close>.
\<close>

theorem C6_delta_percent:
  assumes "computeOverview h game opts = Inr (Some r)"
  shows "deltaPercent r =
           (if claimedEV r = Fin 0 then Fin 0
            else jmul (jdiv (jsub (calcEV r) (claimedEV r)) (jabs (claimedEV r))) (Fin 100))
         \<and> (claimedEV r = Fin 0 \<longrightarrow>
               deltaPercent r = Fin 0 \<and> deltaPercent r \<noteq> PosInf \<and> deltaPercent r \<noteq> NegInf
               \<and> deltaPercent r \<noteq> NaN)"
proof -
  from assms obtain gm pr ts where
    "overviewOf h gm pr (filter (validTier h) (map (\<lambda>t. resolveTier h pr (the t)) ts)) opts
       = Some r"
    by (rule computeOverview_Some_D)
  from overviewOf_Some_D [OF this] show ?thesis
    by (auto simp: Let_def)
qed

theorem C6_delta_percent_witness:
  "computeOverview demo_host (Some ov_game_b) plain_options = Inr (Some ov_result_b)
   \<and> claimedEV ov_result_b = Fin 0
   \<and> calcEV ov_result_b = Fin (25 / 8)
   \<and> deltaPercent ov_result_b = Fin 0
   \<and> computeOverview demo_host (Some ov_game_a) plain_options = Inr (Some ov_result_a)
   \<and> claimedEV ov_result_a = Fin 24
   \<and> deltaPercent ov_result_a =
       jmul (jdiv (jsub (calcEV ov_result_a) (claimedEV ov_result_a)) (jabs (claimedEV ov_result_a)))
         (Fin 100)"
proof -
  have b: "claimedEV ov_result_b = Fin 0" "calcEV ov_result_b = Fin (25 / 8)"
    by (simp_all add: ov_result_b_def)
  have a: "claimedEV ov_result_a = Fin 24"
    by (simp add: ov_result_a_def)
  show ?thesis
    using C6_delta_percent [OF overview_b] C6_delta_percent [OF overview_a] overview_a overview_b
    by (simp add: a b)
qed

subsection \<open>C7\<close>




subsection \<open>C8\<close>

text \<open>
  C8 (as amended). A call of \<open>computeEV\<close> throws a \<open>TypeError\<close> exactly when the
  options or the game are \<open>undefined\<close>, or the price is truthy and the game has no
  \<open>tiers\<close> or a \<open>null\<close> tier; on a game with an array of tiers and an options
  object it never throws and
  its failures are values. With a falsy ticket price or no tier it returns the precondition
  string and leaves the game untouched. Otherwise it returns a result exactly when one of
  the strategies proposes a positive pool, finite or \<open>Infinity\<close>, and the
  estimation-failure string, which differs from the precondition string, when none does.
\<close>

theorem C8_failures_are_values:
  "(computeEV_call h game opts = Inl TypeError) =
     (opts = None \<or> game = None
      \<or> (truthy (jg_ticketPrice (the game))
          \<and> (jg_tiers (the game) = None \<or> None \<in> set (the (jg_tiers (the game))))))
   \<and> (jg_tiers jg = Some (map Some (tiers g)) \<and> as_game jg (tiers g) = g \<longrightarrow>
        computeEV_call h (Some jg) (Some os) = Inr (fst (computeEV h g os)))
   \<and> (\<not> truthy (ticketPrice g) \<or> tiers g = [] \<longrightarrow>
        computeEV h g os = (Inl err_precondition, g))
   \<and> (truthy (ticketPrice g) \<and> tiers g \<noteq> [] \<longrightarrow>
        (if \<exists>m\<in>set (candidates (tiers g)). jgt m (Fin 0)
         then \<not> isl (fst (computeEV h g os))
         else fst (computeEV h g os) = Inl err_estimate))
   \<and> err_precondition \<noteq> err_estimate"
proof (intro conjI impI)
  show "(computeEV_call h game opts = Inl TypeError) =
     (opts = None \<or> game = None
      \<or> (truthy (jg_ticketPrice (the game))
          \<and> (jg_tiers (the game) = None \<or> None \<in> set (the (jg_tiers (the game))))))"
    by (rule computeEV_call_throws)
next
  assume "jg_tiers jg = Some (map Some (tiers g)) \<and> as_game jg (tiers g) = g"
  then show "computeEV_call h (Some jg) (Some os) = Inr (fst (computeEV h g os))"
    using computeEV_call_ok [of jg "tiers g" h os] by simp
next
  assume "\<not> truthy (ticketPrice g) \<or> tiers g = []"
  then show "computeEV h g os = (Inl err_precondition, g)"
    by (rule computeEV_precondition)
next
  assume ok: "truthy (ticketPrice g) \<and> tiers g \<noteq> []"
  show "if \<exists>m\<in>set (candidates (tiers g)). jgt m (Fin 0)
        then \<not> isl (fst (computeEV h g os))
        else fst (computeEV h g os) = Inl err_estimate"
  proof (cases "noEstimate (fst (estimateM (tiers g)))")
    case True
    with ok show ?thesis
      by (simp add: candidates_pos_iff computeEV_no_estimate)
  next
    case False
    with ok show ?thesis
      by (simp add: candidates_pos_iff computeEV_result Let_def)
  qed
next
  show "err_precondition \<noteq> err_estimate" by (rule err_strings_differ)
qed

theorem C8_failures_are_values_witness:
  "computeEV_call demo_host (Some js_game_no_tiers) (Some plain_options) = Inl TypeError
   \<and> computeEV_call demo_host (Some js_game_anchor) None = Inl TypeError
   \<and> computeEV_call demo_host (Some js_game_null_tier) (Some plain_options) = Inl TypeError
   \<and> jg_tiers js_game_anchor = Some (map Some (tiers game_anchor))
   \<and> as_game js_game_anchor (tiers game_anchor) = game_anchor
   \<and> computeEV_call demo_host (Some js_game_anchor) (Some plain_options)
       = Inr (fst (computeEV demo_host game_anchor plain_options))
   \<and> \<not> truthy (ticketPrice game_no_price)
   \<and> computeEV demo_host game_no_price plain_options = (Inl err_precondition, game_no_price)
   \<and> truthy (ticketPrice game_no_odds) \<and> tiers game_no_odds \<noteq> []
   \<and> candidates (tiers game_no_odds) = []
   \<and> fst (computeEV demo_host game_no_odds plain_options) = Inl err_estimate
   \<and> truthy (ticketPrice game_anchor) \<and> tiers game_anchor \<noteq> []
   \<and> candidates (tiers game_anchor) = [Fin 360, Fin 190]
   \<and> \<not> isl (fst (computeEV demo_host game_anchor plain_options))"
proof -
  have a: "\<not> truthy (ticketPrice game_no_price)"
    by (simp add: game_no_price_def truthy_def)
  have b: "truthy (ticketPrice game_no_odds)" "tiers game_no_odds \<noteq> []"
    "truthy (ticketPrice game_anchor)" "tiers game_anchor \<noteq> []"
    by (simp_all add: game_no_odds_def game_anchor_def truthy_def)
  have c: "candidates (tiers game_no_odds) = []"
    by code_simp
  have d: "candidates (tiers game_anchor) = [Fin 360, Fin 190]"
    by code_simp
  have e: "jgt (Fin 360) (Fin 0)" by (simp add: jgt_def)
  have f: "jg_tiers js_game_anchor = Some (map Some (tiers game_anchor))"
    "as_game js_game_anchor (tiers game_anchor) = game_anchor"
    by (simp_all add: js_game_anchor_def game_anchor_def as_game_def)
  have g: "truthy (jg_ticketPrice js_game_no_tiers)" "jg_tiers js_game_no_tiers = None"
    "truthy (jg_ticketPrice js_game_null_tier)"
    "None \<in> set (the (jg_tiers js_game_null_tier))"
    by (simp_all add: js_game_no_tiers_def js_game_null_tier_def truthy_def)
  show ?thesis
    using C8_failures_are_values [of demo_host "Some js_game_no_tiers" "Some plain_options"
        js_game_anchor game_no_price plain_options]
      C8_failures_are_values [of demo_host "Some js_game_anchor" None
        js_game_anchor game_no_odds plain_options]
      C8_failures_are_values [of demo_host "Some js_game_null_tier" "Some plain_options"
        js_game_anchor game_no_odds plain_options]
      C8_failures_are_values [of demo_host "Some js_game_anchor" "Some plain_options"
        js_game_anchor game_anchor plain_options]
      a b c d e f g
    by simp
qed

text \<open>
  The claim as first stated fails twice. A priced game without a \<open>tiers\<close> array makes
  \<open>computeEV\<close> throw. And the claim asks for a positive \<^emph>\<open>finite\<close> pool: with
  odds \<open>Infinity\<close> neither strategy proposes a finite pool, and a result is returned all
  the same, since the guard \<open>!M || M <= 0\<close> lets \<open>Infinity\<close> through.
\<close>

theorem C8_counterexample:
  "computeEV_call demo_host (Some js_game_no_tiers) (Some plain_options) = Inl TypeError
   \<and> truthy (ticketPrice game_inf_odds) \<and> tiers game_inf_odds \<noteq> []
   \<and> candidates (tiers game_inf_odds) = [PosInf, PosInf]
   \<and> \<not> isFinite PosInf
   \<and> \<not> isl (fst (computeEV demo_host game_inf_odds plain_options))
   \<and> M (projr (fst (computeEV demo_host game_inf_odds plain_options))) = PosInf"
  by code_simp

subsection \<open>C9\<close>

text \<open>
  C9. Calling \<open>computeEV\<close> a second time, on the game object as the first call left
  it and with the same options, returns the same result and leaves the object as it was
  after the first call. The only change the first call makes to the object is the ticket
  price written into the value of its ticket tiers.
\<close>

theorem C9_recomputation_is_stable:
  "(let (r1, g1) = computeEV h g opts;
        (r2, g2) = computeEV h g1 opts
    in r2 = r1 \<and> g2 = g1)
   \<and> snd (computeEV h g opts) =
       (if \<not> truthy (ticketPrice g) \<or> tiers g = [] then g
        else g\<lparr>tiers := resolveTickets (ticketPrice g) (tiers g)\<rparr>)"
proof (cases "\<not> truthy (ticketPrice g) \<or> tiers g = []")
  case True
  from computeEV_precondition [OF this] show ?thesis
    using True by simp
next
  case False
  let ?g1 = "g\<lparr>tiers := resolveTickets (ticketPrice g) (tiers g)\<rparr>"
  from False have pre: "truthy (ticketPrice g)" "tiers g \<noteq> []" by simp_all
  have pre1: "truthy (ticketPrice ?g1)" "tiers ?g1 \<noteq> []"
    using pre by (simp_all add: resolveTickets_map)
  have est: "estimateM (tiers ?g1) = estimateM (tiers g)"
    by (simp add: estimateM_resolveTickets)
  have res1: "resolveTickets (ticketPrice ?g1) (tiers ?g1) = tiers ?g1"
    by (simp add: resolveTickets_idem)
  show ?thesis
  proof (cases "noEstimate (fst (estimateM (tiers g)))")
    case True
    then have "noEstimate (fst (estimateM (tiers ?g1)))"
      by (simp add: estimateM_resolveTickets)
    from computeEV_no_estimate [OF pre True, of h opts]
      computeEV_no_estimate [OF pre1 this, of h opts] False
    show ?thesis by (simp add: resolveTickets_idem)
  next
    case ok: False
    then have "\<not> noEstimate (fst (estimateM (tiers ?g1)))"
      by (simp add: estimateM_resolveTickets)
    from computeEV_result [OF pre ok, of h opts]
      computeEV_result [OF pre1 this, of h opts] False
    show ?thesis by (simp add: Let_def resolveTickets_idem estimateM_resolveTickets)
  qed
qed

theorem C9_recomputation_is_stable_witness:
  "snd (computeEV demo_host game_anchor tax_options) \<noteq> game_anchor
   \<and> computeEV demo_host (snd (computeEV demo_host game_anchor tax_options)) tax_options
       = computeEV demo_host game_anchor tax_options"
proof -
  have a: "snd (computeEV demo_host game_anchor tax_options) \<noteq> game_anchor"
    by code_simp
  have "let (r1, g1) = computeEV demo_host game_anchor tax_options;
            (r2, g2) = computeEV demo_host g1 tax_options
        in r2 = r1 \<and> g2 = g1"
    using C9_recomputation_is_stable [of demo_host game_anchor tax_options] by (rule conjunct1)
  then have "computeEV demo_host (snd (computeEV demo_host game_anchor tax_options)) tax_options
       = computeEV demo_host game_anchor tax_options"
    by (simp add: split_beta Let_def prod_eq_iff)
  with a show ?thesis by simp
qed

subsection \<open>C10\<close>

text \<open>
  C10 (as amended). When the ticket price is present and a strategy proposes a positive
  pool, a monetary tier whose value is \<open>NaN\<close> is kept at its place in the result,
  whatever the options are: its adjusted value and its contribution are \<open>NaN\<close>, gross
  and net EV are \<open>NaN\<close>, and \<open>computeEV\<close> returns a result, not an error. (When no
  pool can be estimated the estimation failure is returned, as for any game.)
\<close>

theorem C10_nan_value_propagates:
  assumes "truthy (ticketPrice g)"
    and "\<exists>m\<in>set (candidates (tiers g)). jgt m (Fin 0)"
    and "i < length (tiers g)"
    and "\<not> isTicket (tiers g ! i)"
    and "value (tiers g ! i) = NaN"
  shows "case fst (computeEV h g opts) of
           Inl e \<Rightarrow> False
         | Inr r \<Rightarrow>
             length (ev_tiers r) = length (tiers g)
             \<and> tr_prize (ev_tiers r ! i) = prize (tiers g ! i)
             \<and> adjustedValue (ev_tiers r ! i) = NaN
             \<and> evContribution (ev_tiers r ! i) = NaN
             \<and> evGross r = NaN
             \<and> evNet r = NaN"
proof -
  from assms(3) have ne: "tiers g \<noteq> []" by auto
  from assms(2) have ok: "\<not> noEstimate (fst (estimateM (tiers g)))"
    by (simp add: candidates_pos_iff)
  let ?m = "the (fst (estimateM (tiers g)))"
  let ?rs = "map (tierResult h opts ?m) (resolveTickets (ticketPrice g) (tiers g))"
  let ?r = "\<lparr> ev_ticketPrice = ticketPrice g, M = ?m, method = snd (estimateM (tiers g)),
              evGross = foldl jadd (Fin 0) (map evContribution ?rs),
              evNet = jsub (foldl jadd (Fin 0) (map evContribution ?rs)) (ticketPrice g),
              ev_tiers = ?rs \<rparr>"
  have res: "fst (computeEV h g opts) = Inr ?r"
    using computeEV_result [OF assms(1) ne ok, of h opts] by (simp add: Let_def)
  have nth: "?rs ! i = tierResult h opts ?m (resolveTicket (ticketPrice g) (tiers g ! i))"
    using assms(3) by (simp add: resolveTickets_map)
  have adj: "adjustedValue (?rs ! i) = NaN" and con: "evContribution (?rs ! i) = NaN"
    and pr: "tr_prize (?rs ! i) = prize (tiers g ! i)"
    using assms(4,5) unfolding nth
    by (simp_all add: tierResult_resolved spec_adjust_NaN jmul_NaN_right)
  have len: "length ?rs = length (tiers g)" by (simp add: resolveTickets_map)
  have "NaN \<in> set (map evContribution ?rs)"
    using con len assms(3) by (metis length_map nth_map nth_mem)
  then have gross: "foldl jadd (Fin 0) (map evContribution ?rs) = NaN"
    by (rule foldl_jadd_has_NaN)
  show ?thesis
    using res adj con len pr gross by (simp add: jsub_def)
qed

theorem C10_nan_value_propagates_witness:
  "truthy (ticketPrice game_nan)
   \<and> candidates (tiers game_nan) = [Fin 360, Fin 20]
   \<and> \<not> isTicket (tiers game_nan ! 1)
   \<and> value (tiers game_nan ! 1) = NaN
   \<and> \<not> isl (fst (computeEV demo_host game_nan tax_options))
   \<and> evContribution (ev_tiers (projr (fst (computeEV demo_host game_nan tax_options))) ! 1) = NaN
   \<and> evGross (projr (fst (computeEV demo_host game_nan tax_options))) = NaN
   \<and> evNet (projr (fst (computeEV demo_host game_nan tax_options))) = NaN"
proof -
  have a: "truthy (ticketPrice game_nan)"
    by (simp add: game_nan_def truthy_def)
  have b: "candidates (tiers game_nan) = [Fin 360, Fin 20]"
    by code_simp
  then have c: "\<exists>m\<in>set (candidates (tiers game_nan)). jgt m (Fin 0)"
    by (simp add: jgt_def)
  have d: "1 < length (tiers game_nan)" "\<not> isTicket (tiers game_nan ! 1)"
    "value (tiers game_nan ! 1) = NaN"
    by (simp_all add: game_nan_def cash_nan_def)
  show ?thesis
    using C10_nan_value_propagates [OF a c d, of demo_host tax_options] a b d
    by (auto split: sum.splits)
qed

text \<open>
  The claim as first stated has no condition on the rest of the game. A game whose only
  tier is a prize without a money value and without odds has a \<open>NaN\<close> value, and
  \<open>computeEV\<close> reports the estimation failure instead of a \<open>NaN\<close> result.
\<close>

theorem C10_counterexample:
  "cash_car \<in> set (tiers game_car)
   \<and> \<not> isTicket cash_car
   \<and> value cash_car = NaN
   \<and> truthy (ticketPrice game_car)
   \<and> fst (computeEV demo_host game_car plain_options) = Inl err_estimate"
  by code_simp

end
